theory Spec2Isabelle
  imports Complex_Main "HOL-Library.Monad_Syntax" "HOL-Library.AList"
begin

section \<open>Numbers\<close>

text \<open>
  A JavaScript \<^verbatim>\<open>number\<close> is modelled as a real number: arithmetic is exact,
  \<^verbatim>\<open>Math.min\<close>, \<^verbatim>\<open>Math.max\<close>, \<^verbatim>\<open>Math.sign\<close> and \<^verbatim>\<open>Math.exp\<close> are
  \<^const>\<open>min\<close>, \<^const>\<open>max\<close>, \<^const>\<open>sgn\<close> and \<^const>\<open>exp\<close>, and \<^verbatim>\<open>Math.hypot\<close> is the
  root of the sum of the squares. Rounding, infinities and NaN are outside the model. The one place where the program can leave the finite numbers by
  itself is a division by zero: \<open>jsdiv\<close> makes it the value \<open>None\<close>, and every function
  that divides by a variable propagates it, so that \<open>Some\<close> means that every number of the
  run was finite. Division by a non-zero literal is written \<open>/\<close>.
\<close>

definition jsdiv :: "real \<Rightarrow> real \<Rightarrow> real option" where
  "jsdiv a b = (if b = 0 then None else Some (a / b))"

definition hypot :: "real \<Rightarrow> real \<Rightarrow> real" where
  "hypot a b = sqrt (a\<^sup>2 + b\<^sup>2)"

section \<open>Data model (types.ts and the state of App)\<close>

datatype MaskType =
  NONE | HAND | CIRCLE | RECTANGLE | HEART | STAR | TEXT | SPLIT | FILMSTRIP | BRUSH | PEN

text \<open>
  TypeScript interfaces are structural, and the source uses the field names \<open>x\<close>, \<open>y\<close>,
  \<open>scale\<close>, \<open>width\<close>, \<open>height\<close>, \<open>center\<close> and \<open>distance\<close> in several of them. The
  records below keep those names by extension: a record that has the fields of another one
  (and more) extends it. Nothing in the model uses a \<open>MaskConfig\<close> as a \<open>Transform\<close>.
  In \<open>MaskConfig\<close>, \<open>x\<close> and \<open>y\<close> are the normalised position of the shape and \<open>scale\<close>
  its magnification; in \<open>Transform\<close> they are the translation and zoom of the camera.
\<close>

record Point =
  x :: real
  y :: real

record Transform = Point +
  scale :: real

record MaskConfig = Transform +
  type :: MaskType
  shape :: MaskType
  rotation :: real
  "text" :: string
  fontSize :: real
  brushPoints :: "Point list list"
  brushSize :: real
  opacity :: real

definition DEFAULT_MASK_CONFIG :: MaskConfig where
  "DEFAULT_MASK_CONFIG =
     \<lparr> x = 0.5, y = 0.5, scale = 0.4, type = CIRCLE, shape = CIRCLE, rotation = 0,
       text = ''MASK'', fontSize = 100, brushPoints = [], brushSize = 20, opacity = 1 \<rparr>"

record Size =
  width :: real
  height :: real

text \<open>An \<^verbatim>\<open>HTMLImageElement\<close>: its dimensions, and \<open>src\<close> standing for its content.\<close>

record Image = Size +
  src :: string

record DOMRect = Size +
  left :: real
  top :: real

record MouseEvent =
  clientX :: real
  clientY :: real

record PointerEvent = MouseEvent +
  pointerId :: int
  isPrimary :: bool

record WheelEvent = MouseEvent +
  deltaY :: real

text \<open>The result of \<open>getCentroid\<close>, and the gesture baseline that adds the camera to it.\<close>

record Centroid =
  center :: Point
  distance :: real

record GestureStart = Centroid +
  transform :: Transform

text \<open>
  What the handlers read from the browser: the window, the bounding rectangle of the
  viewport element (\<open>None\<close> when \<^verbatim>\<open>viewportRef.current\<close> is null) and the clock.
\<close>

record Env =
  innerWidth :: real
  innerHeight :: real
  viewportRect :: "DOMRect option"
  now :: real

text \<open>
  The state of the \<^verbatim>\<open>App\<close> component: its \<^verbatim>\<open>useState\<close> cells and its refs.
  \<open>pointersRef\<close> is a JavaScript \<^verbatim>\<open>Map\<close>: an association list in insertion order,
  written with \<^const>\<open>AList.update\<close> (an existing key keeps its place, a new one goes to
  the end) and \<^const>\<open>AList.delete\<close>, so its keys stay distinct and its length is the
  \<^verbatim>\<open>size\<close> of the map. \<open>transformRef\<close> is the ref that an effect copies from
  \<open>transform\<close> after each render (\<open>syncTransformRef\<close>).
\<close>

record AppState =
  maskConfig :: MaskConfig
  img1 :: "Image option"
  img2 :: "Image option"
  canvasSize :: Size
  isGenerating :: bool
  upscalingLayer :: "nat option"
  showGenModal :: bool
  transform :: Transform
  pointersRef :: "(int \<times> Point) list"
  gestureStartRef :: "GestureStart option"
  transformRef :: Transform
  lastTapRef :: real
  past :: "MaskConfig list"
  future :: "MaskConfig list"

definition initialState :: "Env \<Rightarrow> AppState" where
  "initialState env =
     \<lparr> maskConfig = DEFAULT_MASK_CONFIG, img1 = None, img2 = None,
       canvasSize = \<lparr> width = innerWidth env, height = innerHeight env * 0.6 \<rparr>,
       isGenerating = False, upscalingLayer = None, showGenModal = False,
       transform = \<lparr> x = 0, y = 0, scale = 1 \<rparr>,
       pointersRef = [], gestureStartRef = None,
       transformRef = \<lparr> x = 0, y = 0, scale = 1 \<rparr>,
       lastTapRef = 0, past = [], future = [] \<rparr>"

definition syncTransformRef :: "AppState \<Rightarrow> AppState" where
  "syncTransformRef s = s\<lparr> transformRef := AppState.transform s \<rparr>"

definition setMaskConfig :: "MaskConfig \<Rightarrow> AppState \<Rightarrow> AppState" where
  "setMaskConfig c s = s\<lparr> maskConfig := c \<rparr>"

section \<open>History stack\<close>

text \<open>
  A handler runs on the state of the last render, so the \<open>maskConfig\<close>, \<open>past\<close> and
  \<open>future\<close> of its closure are those of the state it is applied to.
\<close>

definition saveHistory :: "AppState \<Rightarrow> AppState" where
  "saveHistory s = s\<lparr> past := past s @ [maskConfig s], future := [] \<rparr>"

definition undo :: "AppState \<Rightarrow> AppState" where
  "undo s =
     (if length (past s) = 0 then s
      else
        let previous = last (past s);
            newPast = take (length (past s) - 1) (past s)
        in s\<lparr> future := maskConfig s # future s, maskConfig := previous, past := newPast \<rparr>)"

definition redo :: "AppState \<Rightarrow> AppState" where
  "redo s =
     (if length (future s) = 0 then s
      else
        let next = hd (future s);
            newFuture = drop 1 (future s)
        in s\<lparr> past := past s @ [maskConfig s], maskConfig := next, future := newFuture \<rparr>)"

section \<open>Tool selection (the \<open>onSelectMask\<close> callback given to the toolbar)\<close>

definition onSelectMask :: "MaskType \<Rightarrow> AppState \<Rightarrow> AppState" where
  "onSelectMask ty s =
     (let s1 = saveHistory s;
          isBrushTool = (ty = BRUSH \<or> ty = PEN);
          isHandTool = (ty = HAND);
          prev = maskConfig s1
      in s1\<lparr> maskConfig := prev\<lparr>
            type := ty,
            shape := (if isHandTool then shape prev else (if isBrushTool then NONE else ty)),
            brushPoints := (if isHandTool then brushPoints prev else []),
            x := (if isHandTool then x prev else 0.5),
            y := (if isHandTool then y prev else 0.5),
            scale := (if isHandTool then scale prev else scale DEFAULT_MASK_CONFIG),
            rotation := (if isHandTool then rotation prev else 0) \<rparr> \<rparr>)"

section \<open>Viewport and gestures\<close>

definition getCentroid :: "Point list \<Rightarrow> Centroid option" where
  "getCentroid points =
     (let sx = fold (\<lambda>p a. a + x p) points 0;
          sy = fold (\<lambda>p a. a + y p) points 0
      in do {
        cx \<leftarrow> jsdiv sx (real (length points));
        cy \<leftarrow> jsdiv sy (real (length points));
        let c = \<lparr> x = cx, y = cy \<rparr>;
        d \<leftarrow> (if length points > 1
              then jsdiv (fold (\<lambda>p a. a + hypot (x p - x c) (y p - y c)) points 0)
                         (real (length points))
              else Some 0);
        Some \<lparr> center = c, distance = d \<rparr>
      })"

definition updateGestureStart :: "AppState \<Rightarrow> AppState option" where
  "updateGestureStart s =
     (if length (pointersRef s) = 0 then Some (s\<lparr> gestureStartRef := None \<rparr>)
      else do {
        c \<leftarrow> getCentroid (map snd (pointersRef s));
        Some (s\<lparr> gestureStartRef :=
                  Some \<lparr> center = center c, distance = distance c,
                         GestureStart.transform = transformRef s \<rparr> \<rparr>)
      })"

definition centerImage :: "Env \<Rightarrow> real \<Rightarrow> real \<Rightarrow> AppState \<Rightarrow> AppState option" where
  "centerImage env w h s =
     (let paddingX = 48;
          paddingY = 140;
          availableWidth = innerWidth env - paddingX;
          availableHeight = innerHeight env - paddingY
      in do {
        scaleX \<leftarrow> jsdiv availableWidth w;
        scaleY \<leftarrow> jsdiv availableHeight h;
        let fitScale = min (min scaleX scaleY) 1;
            nx = (innerWidth env - w * fitScale) / 2;
            ny = (innerHeight env - h * fitScale) / 2
        in Some (s\<lparr> transform := \<lparr> x = nx, y = ny, scale = fitScale \<rparr> \<rparr>)
      })"

definition handleWheel :: "Env \<Rightarrow> WheelEvent \<Rightarrow> AppState \<Rightarrow> AppState option" where
  "handleWheel env e s =
     (if isGenerating s \<or> showGenModal s then Some s
      else case viewportRect env of
        None \<Rightarrow> Some s
      | Some rect \<Rightarrow>
          let delta = - sgn (deltaY e);
              ZOOM_SPEED = 0.15;
              multiplier = exp (delta * ZOOM_SPEED);
              currentScale = scale (transformRef s);
              newScale = min (max (currentScale * multiplier) 0.05) 20;
              mouseX = clientX e - left rect;
              mouseY = clientY e - top rect
          in do {
            worldX \<leftarrow> jsdiv (mouseX - x (transformRef s)) currentScale;
            worldY \<leftarrow> jsdiv (mouseY - y (transformRef s)) currentScale;
            let newX = mouseX - worldX * newScale;
                newY = mouseY - worldY * newScale
            in Some (s\<lparr> transform := \<lparr> x = newX, y = newY, scale = newScale \<rparr> \<rparr>)
          })"

definition handleFitToScreen :: "Env \<Rightarrow> AppState \<Rightarrow> AppState option" where
  "handleFitToScreen env s = centerImage env (width (canvasSize s)) (height (canvasSize s)) s"

definition handlePointerDown :: "Env \<Rightarrow> PointerEvent \<Rightarrow> AppState \<Rightarrow> AppState option" where
  "handlePointerDown env e s =
     do {
       s1 \<leftarrow> updateGestureStart
               (s\<lparr> pointersRef :=
                     AList.update (pointerId e) \<lparr> x = clientX e, y = clientY e \<rparr> (pointersRef s) \<rparr>);
       if length (pointersRef s1) = 1 then
         do {
           s2 \<leftarrow>
             (if now env - lastTapRef s1 < 300 then
                (if scale (transformRef s1) < 1 then
                   (case viewportRect env of
                      Some rect \<Rightarrow>
                        let px = clientX e - left rect;
                            py = clientY e - top rect
                        in do {
                          wx \<leftarrow> jsdiv (px - x (transformRef s1)) (scale (transformRef s1));
                          wy \<leftarrow> jsdiv (py - y (transformRef s1)) (scale (transformRef s1));
                          Some (s1\<lparr> transform := \<lparr> x = px - wx, y = py - wy, scale = 1 \<rparr> \<rparr>)
                        }
                    | None \<Rightarrow> Some s1)
                 else handleFitToScreen env s1)
              else Some s1);
           Some (s2\<lparr> lastTapRef := now env \<rparr>)
         }
       else Some s1
     }"

text \<open>
  The scale step of \<open>handlePointerMove\<close> (the block under its comment \<^verbatim>\<open>// 1. Scale\<close>):
  the baseline, the number of active pointers and the current mean distance give the new
  camera scale.
\<close>

definition pinchScale :: "nat \<Rightarrow> GestureStart \<Rightarrow> Centroid \<Rightarrow> real option" where
  "pinchScale pointersCount gesture current =
     (let startDist = distance gesture;
          startTransform = GestureStart.transform gesture
      in do {
        newScale \<leftarrow>
          (if pointersCount > 1 \<and> startDist > 0
           then do { r \<leftarrow> jsdiv (distance current) startDist; Some (scale startTransform * r) }
           else Some (scale startTransform));
        Some (min (max newScale 0.05) 20)
      })"

definition handlePointerMove :: "Env \<Rightarrow> PointerEvent \<Rightarrow> AppState \<Rightarrow> AppState option" where
  "handlePointerMove env e s =
     (if pointerId e \<notin> fst ` set (pointersRef s) then Some s
      else
        let s1 = s\<lparr> pointersRef :=
                     AList.update (pointerId e) \<lparr> x = clientX e, y = clientY e \<rparr> (pointersRef s) \<rparr>
        in case gestureStartRef s1 of
          None \<Rightarrow> Some s1
        | Some gesture \<Rightarrow>
            let pointersCount = length (pointersRef s1) in
            if pointersCount = 1 \<and> type (maskConfig s1) \<noteq> HAND then Some s1
            else do {
              current \<leftarrow> getCentroid (map snd (pointersRef s1));
              let startCenter = center gesture;
              let startTransform = GestureStart.transform gesture;
              newScale \<leftarrow> pinchScale pointersCount gesture current;
              let offsetX = (case viewportRect env of Some rect \<Rightarrow> left rect | None \<Rightarrow> 0);
              let offsetY = (case viewportRect env of Some rect \<Rightarrow> top rect | None \<Rightarrow> 0);
              let scX = x startCenter - offsetX;
              let scY = y startCenter - offsetY;
              let ccX = x (center current) - offsetX;
              let ccY = y (center current) - offsetY;
              worldX \<leftarrow> jsdiv (scX - x startTransform) (scale startTransform);
              worldY \<leftarrow> jsdiv (scY - y startTransform) (scale startTransform);
              let newX = ccX - worldX * newScale;
                  newY = ccY - worldY * newScale
              in Some (s1\<lparr> transform := \<lparr> x = newX, y = newY, scale = newScale \<rparr> \<rparr>)
            })"

definition handlePointerUp :: "PointerEvent \<Rightarrow> AppState \<Rightarrow> AppState option" where
  "handlePointerUp e s =
     updateGestureStart (s\<lparr> pointersRef := AList.delete (pointerId e) (pointersRef s) \<rparr>)"

definition handleZoomIn :: "AppState \<Rightarrow> AppState" where
  "handleZoomIn s =
     s\<lparr> transform := (AppState.transform s)\<lparr> scale := min (scale (AppState.transform s) * 1.25) 20 \<rparr> \<rparr>"

definition handleZoomOut :: "AppState \<Rightarrow> AppState" where
  "handleZoomOut s =
     s\<lparr> transform := (AppState.transform s)\<lparr> scale := max (scale (AppState.transform s) * 0.8) 0.05 \<rparr> \<rparr>"

definition handleCenterView :: "Env \<Rightarrow> AppState \<Rightarrow> AppState" where
  "handleCenterView env s =
     (let centerX = (innerWidth env - width (canvasSize s) * scale (AppState.transform s)) / 2;
          centerY = (innerHeight env - height (canvasSize s) * scale (AppState.transform s)) / 2
      in s\<lparr> transform := (AppState.transform s)\<lparr> x := centerX, y := centerY \<rparr> \<rparr>)"

section \<open>Upscaling a layer\<close>

text \<open>
  \<open>handleUpscaleLayer\<close> is asynchronous. Its synchronous part picks the image of the
  target layer and marks the layer as being upscaled; it returns the image it captured.
  \<open>handleUpscaleLayer_onload\<close> is the \<^verbatim>\<open>onload\<close> callback of the image decoded from a
  successful reply: it runs later, on the state of that moment, with the captured image.
  \<open>handleUpscaleLayer_failed\<close> is the branch of an empty reply. The branches in which the
  image cannot be encoded or the request throws are not modelled.
\<close>

definition handleUpscaleLayer :: "nat \<Rightarrow> AppState \<Rightarrow> AppState \<times> Image option" where
  "handleUpscaleLayer target s =
     (case (if target = 1 then img1 s else img2 s) of
        None \<Rightarrow> (s, None)
      | Some img \<Rightarrow> (s\<lparr> upscalingLayer := Some target \<rparr>, Some img))"

definition handleUpscaleLayer_onload :: "nat \<Rightarrow> Image \<Rightarrow> Image \<Rightarrow> AppState \<Rightarrow> AppState option" where
  "handleUpscaleLayer_onload target img newImg s =
     (if target = 1 then
        do {
          ratio \<leftarrow> jsdiv (width newImg) (width img);
          newScale \<leftarrow> jsdiv (scale (AppState.transform s)) ratio;
          let prev = maskConfig s in
          Some (s\<lparr> img1 := Some newImg,
                   canvasSize := \<lparr> width = width newImg, height = height newImg \<rparr>,
                   maskConfig := prev\<lparr>
                     fontSize := fontSize prev * ratio,
                     brushSize := brushSize prev * ratio,
                     brushPoints :=
                       map (\<lambda>stroke. map (\<lambda>p. \<lparr> x = x p * ratio, y = y p * ratio \<rparr>) stroke)
                           (brushPoints prev) \<rparr>,
                   transform := (AppState.transform s)\<lparr> scale := newScale \<rparr>,
                   upscalingLayer := None \<rparr>)
        }
      else Some (s\<lparr> img2 := Some newImg, upscalingLayer := None \<rparr>))"

definition handleUpscaleLayer_failed :: "AppState \<Rightarrow> AppState" where
  "handleUpscaleLayer_failed s = s\<lparr> upscalingLayer := None \<rparr>"

section \<open>The drawing path (pointer-down of CanvasLayer)\<close>

text \<open>
  The local state of the \<^verbatim>\<open>CanvasLayer\<close> component, and what \<open>getPos\<close> reads from its
  canvas element: the pixel size of the canvas and its bounding rectangle on screen.
  \<open>App\<close> passes \<open>maskConfig\<close>, \<open>setMaskConfig\<close> as \<^verbatim>\<open>onUpdateMaskConfig\<close> and
  \<open>saveHistory\<close> as \<^verbatim>\<open>onHistorySave\<close>, so the handler of the layer acts on the state of
  \<open>App\<close> and on its own.
\<close>

record LayerState =
  isDragging :: bool
  lastPos :: Point

record HTMLCanvasElement = Size +
  boundingClientRect :: DOMRect

definition getPos :: "HTMLCanvasElement option \<Rightarrow> PointerEvent \<Rightarrow> Point option" where
  "getPos canvasRef e =
     (case canvasRef of
        None \<Rightarrow> Some \<lparr> x = 0, y = 0 \<rparr>
      | Some canvas \<Rightarrow>
          let rect = boundingClientRect canvas in
          do {
            scaleX \<leftarrow> jsdiv (width canvas) (width rect);
            scaleY \<leftarrow> jsdiv (height canvas) (height rect);
            Some \<lparr> x = (clientX e - left rect) * scaleX, y = (clientY e - top rect) * scaleY \<rparr>
          })"

definition CanvasLayer_handlePointerDown ::
  "HTMLCanvasElement option \<Rightarrow> PointerEvent \<Rightarrow> AppState \<times> LayerState
     \<Rightarrow> (AppState \<times> LayerState) option" where
  "CanvasLayer_handlePointerDown canvasRef e st =
     (case st of (app, l) \<Rightarrow>
        if type (maskConfig app) = HAND then Some (app, l)
        else if \<not> isPrimary e then Some (app, l)
        else
          let app1 = saveHistory app in
          do {
            pos \<leftarrow> getPos canvasRef e;
            let l1 = l\<lparr> isDragging := True, lastPos := pos \<rparr>;
            if type (maskConfig app) = BRUSH \<or> type (maskConfig app) = PEN then
              let newStrokes = brushPoints (maskConfig app) @ [[pos]]
              in Some (setMaskConfig ((maskConfig app)\<lparr> brushPoints := newStrokes \<rparr>) app1, l1)
            else Some (app1, l1)
          })"


section \<open>The 2D canvas\<close>

text \<open>
  A canvas is modelled by what has been painted on it since it was last blank: the list
  \<open>drawn\<close> of painting operations, each with the part of the drawing state that the
  operation reads. The pixels of a canvas are a function of its size and of that list, which
  the browser computes; two canvases of one size with the same list show the same pixels.
  The current transformation is the list \<open>ctm\<close> of the transformations applied so far, and a
  path segment is kept with the transformation under which it was added.
\<close>

datatype XForm = Translate real real | Rotate real | Scale real real

datatype PathCmd =
    MoveTo real real
  | LineTo real real
  | BezierCurveTo real real real real real real
  | Arc real real real real real
  | RectPath real real real real
  | ClosePath

type_synonym Path = "(XForm list \<times> PathCmd) list"

datatype Font = Font nat real string

record Compositing =
  ctm :: "XForm list"
  globalAlpha :: real
  globalCompositeOperation :: string

record DrawingState = Compositing +
  fillStyle :: string
  strokeStyle :: string
  lineWidth :: real
  lineCap :: string
  lineJoin :: string
  font :: Font
  textAlign :: string
  textBaseline :: string

text \<open>
  \<open>Stroke\<close> carries the stroke style, line width, line cap and line join; \<open>FillText\<close> the
  fill style, font, alignment, baseline, string and position; \<open>DrawCanvas\<close> the size and
  the content of the canvas that is drawn.
\<close>

datatype Paint =
    Fill Compositing string Path
  | Stroke Compositing string real string string Path
  | FillRect Compositing string real real real real
  | FillText Compositing string Font string string string real real
  | DrawImage Compositing Image real real real real
  | DrawCanvas Compositing nat nat "Paint list" real real
  | ClearRect "XForm list" real real real real

record Ctx = DrawingState +
  stack :: "DrawingState list"
  path :: Path
  canvasWidth :: nat
  canvasHeight :: nat
  drawn :: "Paint list"

text \<open>
  The size a canvas element takes from a number: the number truncated, and the default
  (300 by 150) for a negative one. A new canvas is blank, with the default drawing state.
\<close>

definition canvasDim :: "nat \<Rightarrow> real \<Rightarrow> nat" where
  "canvasDim d v = (if 0 \<le> v then nat \<lfloor>v\<rfloor> else d)"

definition createCanvas :: "real \<Rightarrow> real \<Rightarrow> Ctx" where
  "createCanvas w h =
     \<lparr> ctm = [], globalAlpha = 1, globalCompositeOperation = ''source-over'',
       fillStyle = ''#000000'', strokeStyle = ''#000000'', lineWidth = 1,
       lineCap = ''butt'', lineJoin = ''miter'', font = Font 400 10 ''sans-serif'',
       textAlign = ''start'', textBaseline = ''alphabetic'',
       stack = [], path = [],
       canvasWidth = canvasDim 300 w, canvasHeight = canvasDim 150 h, drawn = [] \<rparr>"

subsection \<open>Attributes\<close>

text \<open>
  An assignment to an attribute of the context. The canvas ignores a line width that is not
  positive, an alpha outside \<open>[0, 1]\<close> and a font of negative size; the strings that the
  program assigns are all valid values of their attributes.
\<close>

definition set_fillStyle :: "string \<Rightarrow> Ctx \<Rightarrow> Ctx" where
  "set_fillStyle v ctx = ctx\<lparr> fillStyle := v \<rparr>"

definition set_strokeStyle :: "string \<Rightarrow> Ctx \<Rightarrow> Ctx" where
  "set_strokeStyle v ctx = ctx\<lparr> strokeStyle := v \<rparr>"

definition set_lineCap :: "string \<Rightarrow> Ctx \<Rightarrow> Ctx" where
  "set_lineCap v ctx = ctx\<lparr> lineCap := v \<rparr>"

definition set_lineJoin :: "string \<Rightarrow> Ctx \<Rightarrow> Ctx" where
  "set_lineJoin v ctx = ctx\<lparr> lineJoin := v \<rparr>"

definition set_lineWidth :: "real \<Rightarrow> Ctx \<Rightarrow> Ctx" where
  "set_lineWidth v ctx = (if 0 < v then ctx\<lparr> lineWidth := v \<rparr> else ctx)"

definition set_font :: "Font \<Rightarrow> Ctx \<Rightarrow> Ctx" where
  "set_font v ctx = (case v of Font wt px family \<Rightarrow>
                       if 0 \<le> px then ctx\<lparr> font := v \<rparr> else ctx)"

definition set_textAlign :: "string \<Rightarrow> Ctx \<Rightarrow> Ctx" where
  "set_textAlign v ctx = ctx\<lparr> textAlign := v \<rparr>"

definition set_textBaseline :: "string \<Rightarrow> Ctx \<Rightarrow> Ctx" where
  "set_textBaseline v ctx = ctx\<lparr> textBaseline := v \<rparr>"

definition set_globalAlpha :: "real \<Rightarrow> Ctx \<Rightarrow> Ctx" where
  "set_globalAlpha v ctx = (if 0 \<le> v \<and> v \<le> 1 then ctx\<lparr> globalAlpha := v \<rparr> else ctx)"

definition set_globalCompositeOperation :: "string \<Rightarrow> Ctx \<Rightarrow> Ctx" where
  "set_globalCompositeOperation v ctx = ctx\<lparr> globalCompositeOperation := v \<rparr>"

subsection \<open>State, transformations and paths\<close>

definition ctx_save :: "Ctx \<Rightarrow> Ctx" where
  "ctx_save ctx = ctx\<lparr> stack := DrawingState.truncate ctx # stack ctx \<rparr>"

definition ctx_restore :: "Ctx \<Rightarrow> Ctx" where
  "ctx_restore ctx =
     (case stack ctx of
        [] \<Rightarrow> ctx
      | d # ds \<Rightarrow>
          ctx\<lparr> ctm := ctm d, globalAlpha := globalAlpha d,
               globalCompositeOperation := globalCompositeOperation d,
               fillStyle := fillStyle d, strokeStyle := strokeStyle d,
               lineWidth := lineWidth d, lineCap := lineCap d, lineJoin := lineJoin d,
               font := font d, textAlign := textAlign d, textBaseline := textBaseline d,
               stack := ds \<rparr>)"

definition ctx_translate :: "real \<Rightarrow> real \<Rightarrow> Ctx \<Rightarrow> Ctx" where
  "ctx_translate a b ctx = ctx\<lparr> ctm := ctm ctx @ [Translate a b] \<rparr>"

definition ctx_rotate :: "real \<Rightarrow> Ctx \<Rightarrow> Ctx" where
  "ctx_rotate a ctx = ctx\<lparr> ctm := ctm ctx @ [Rotate a] \<rparr>"

definition ctx_scale :: "real \<Rightarrow> real \<Rightarrow> Ctx \<Rightarrow> Ctx" where
  "ctx_scale a b ctx = ctx\<lparr> ctm := ctm ctx @ [Scale a b] \<rparr>"

definition ctx_beginPath :: "Ctx \<Rightarrow> Ctx" where
  "ctx_beginPath ctx = ctx\<lparr> path := [] \<rparr>"

definition addPath :: "PathCmd \<Rightarrow> Ctx \<Rightarrow> Ctx" where
  "addPath c ctx = ctx\<lparr> path := path ctx @ [(ctm ctx, c)] \<rparr>"

definition ctx_moveTo :: "real \<Rightarrow> real \<Rightarrow> Ctx \<Rightarrow> Ctx" where
  "ctx_moveTo a b = addPath (MoveTo a b)"

definition ctx_lineTo :: "real \<Rightarrow> real \<Rightarrow> Ctx \<Rightarrow> Ctx" where
  "ctx_lineTo a b = addPath (LineTo a b)"

definition ctx_bezierCurveTo ::
  "real \<Rightarrow> real \<Rightarrow> real \<Rightarrow> real \<Rightarrow> real \<Rightarrow> real \<Rightarrow> Ctx \<Rightarrow> Ctx" where
  "ctx_bezierCurveTo a b c d e f = addPath (BezierCurveTo a b c d e f)"

definition ctx_arc :: "real \<Rightarrow> real \<Rightarrow> real \<Rightarrow> real \<Rightarrow> real \<Rightarrow> Ctx \<Rightarrow> Ctx" where
  "ctx_arc a b r a0 a1 = addPath (Arc a b r a0 a1)"

definition ctx_rect :: "real \<Rightarrow> real \<Rightarrow> real \<Rightarrow> real \<Rightarrow> Ctx \<Rightarrow> Ctx" where
  "ctx_rect a b w h = addPath (RectPath a b w h)"

definition ctx_closePath :: "Ctx \<Rightarrow> Ctx" where
  "ctx_closePath = addPath ClosePath"

subsection \<open>Painting\<close>

definition paint :: "Paint \<Rightarrow> Ctx \<Rightarrow> Ctx" where
  "paint p ctx = ctx\<lparr> drawn := drawn ctx @ [p] \<rparr>"

definition ctx_fill :: "Ctx \<Rightarrow> Ctx" where
  "ctx_fill ctx = paint (Fill (Compositing.truncate ctx) (fillStyle ctx) (path ctx)) ctx"

definition ctx_stroke :: "Ctx \<Rightarrow> Ctx" where
  "ctx_stroke ctx =
     paint (Stroke (Compositing.truncate ctx) (strokeStyle ctx) (lineWidth ctx) (lineCap ctx)
              (lineJoin ctx) (path ctx)) ctx"

definition ctx_fillRect :: "real \<Rightarrow> real \<Rightarrow> real \<Rightarrow> real \<Rightarrow> Ctx \<Rightarrow> Ctx" where
  "ctx_fillRect a b w h ctx =
     paint (FillRect (Compositing.truncate ctx) (fillStyle ctx) a b w h) ctx"

definition ctx_fillText :: "string \<Rightarrow> real \<Rightarrow> real \<Rightarrow> Ctx \<Rightarrow> Ctx" where
  "ctx_fillText t a b ctx =
     paint (FillText (Compositing.truncate ctx) (fillStyle ctx) (font ctx) (textAlign ctx)
              (textBaseline ctx) t a b) ctx"

definition ctx_drawImage :: "Image \<Rightarrow> real \<Rightarrow> real \<Rightarrow> real \<Rightarrow> real \<Rightarrow> Ctx \<Rightarrow> Ctx" where
  "ctx_drawImage img a b w h ctx = paint (DrawImage (Compositing.truncate ctx) img a b w h) ctx"

definition ctx_drawCanvas :: "Ctx \<Rightarrow> real \<Rightarrow> real \<Rightarrow> Ctx \<Rightarrow> Ctx" where
  "ctx_drawCanvas source a b ctx =
     paint (DrawCanvas (Compositing.truncate ctx) (canvasWidth source) (canvasHeight source)
              (drawn source) a b) ctx"

text \<open>
  Clearing a rectangle that covers the whole canvas, with no transformation in effect,
  leaves a blank canvas; any other clearing is one more operation on what is there.
\<close>

definition ctx_clearRect :: "real \<Rightarrow> real \<Rightarrow> real \<Rightarrow> real \<Rightarrow> Ctx \<Rightarrow> Ctx" where
  "ctx_clearRect a b w h ctx =
     (if ctm ctx = [] \<and> a \<le> 0 \<and> b \<le> 0
         \<and> real (canvasWidth ctx) \<le> a + w \<and> real (canvasHeight ctx) \<le> b + h
      then ctx\<lparr> drawn := [] \<rparr>
      else paint (ClearRect (ctm ctx) a b w h) ctx)"


section \<open>Shape rasterizer (drawUtils)\<close>

text \<open>A block of statements on one context, run from first to last.\<close>

definition seq :: "('s \<Rightarrow> 's) list \<Rightarrow> 's \<Rightarrow> 's" where
  "seq fs = fold (\<lambda>f. f) fs"

text \<open>
  The loop of \<open>drawStar\<close>; its first argument counts the iterations left. \<open>spikes\<close> is a
  number of iterations; when it is 0 the loop, the only reader of \<open>step\<close>, does not run.
\<close>

fun starLoop :: "nat \<Rightarrow> real \<Rightarrow> real \<Rightarrow> real \<Rightarrow> real \<Rightarrow> real \<Rightarrow> real \<Rightarrow> Ctx \<Rightarrow> Ctx" where
  "starLoop 0 rot step cx cy outerRadius innerRadius ctx = ctx"
| "starLoop (Suc n) rot step cx cy outerRadius innerRadius ctx =
     starLoop n (rot + step + step) step cx cy outerRadius innerRadius
       (seq [ ctx_lineTo (cx + cos rot * outerRadius) (cy + sin rot * outerRadius),
              ctx_lineTo (cx + cos (rot + step) * innerRadius) (cy + sin (rot + step) * innerRadius) ]
            ctx)"

definition drawStar :: "Ctx \<Rightarrow> real \<Rightarrow> real \<Rightarrow> nat \<Rightarrow> real \<Rightarrow> real \<Rightarrow> Ctx" where
  "drawStar ctx cx cy spikes outerRadius innerRadius =
     (let rot = (pi / 2) * 3;
          step = pi / real spikes
      in seq [ ctx_beginPath,
               ctx_moveTo cx (cy - outerRadius),
               starLoop spikes rot step cx cy outerRadius innerRadius,
               ctx_lineTo cx (cy - outerRadius),
               ctx_closePath,
               ctx_fill ] ctx)"

definition drawHeart :: "Ctx \<Rightarrow> real \<Rightarrow> real \<Rightarrow> real \<Rightarrow> real \<Rightarrow> Ctx" where
  "drawHeart ctx hx hy w h =
     (let topCurveHeight = h * 0.3
      in seq [ ctx_beginPath,
               ctx_moveTo hx (hy + topCurveHeight),
               ctx_bezierCurveTo hx hy (hx - w / 2) hy (hx - w / 2) (hy + topCurveHeight),
               ctx_bezierCurveTo (hx - w / 2) (hy + (h + topCurveHeight) / 2)
                                 hx (hy + (h + topCurveHeight) / 2)
                                 hx (hy + h),
               ctx_bezierCurveTo hx (hy + (h + topCurveHeight) / 2)
                                 (hx + w / 2) (hy + (h + topCurveHeight) / 2)
                                 (hx + w / 2) (hy + topCurveHeight),
               ctx_bezierCurveTo (hx + w / 2) hy hx hy hx (hy + topCurveHeight),
               ctx_closePath,
               ctx_fill ] ctx)"

definition drawFilmstrip :: "Ctx \<Rightarrow> real \<Rightarrow> real \<Rightarrow> Ctx" where
  "drawFilmstrip ctx w h =
     (let frameWidth = w * 0.8;
          frameHeight = h * 0.25;
          gap = h * 0.05;
          startY = (h - (frameHeight * 3 + gap * 2)) / 2;
          holeSize = 10;
          holesPerSide = 8;
          holeGap = h / real holesPerSide
      in seq [ ctx_beginPath,
               ctx_rect ((w - frameWidth) / 2) startY frameWidth frameHeight,
               ctx_rect ((w - frameWidth) / 2) (startY + frameHeight + gap) frameWidth frameHeight,
               ctx_rect ((w - frameWidth) / 2) (startY + (frameHeight + gap) * 2) frameWidth frameHeight,
               fold (\<lambda>i. seq [ ctx_rect 10 (real i * holeGap + 10) holeSize holeSize,
                               ctx_rect (w - 10 - holeSize) (real i * holeGap + 10) holeSize holeSize ])
                    [0 ..< holesPerSide],
               ctx_fill ] ctx)"

text \<open>
  One iteration of \<^verbatim>\<open>brushPoints.forEach\<close> in \<open>drawMaskShape\<close>: a stroke with no point
  is skipped, another one is a polyline from its first point through the others.
\<close>

definition drawStroke :: "Point list \<Rightarrow> Ctx \<Rightarrow> Ctx" where
  "drawStroke stroke ctx =
     (if length stroke < 1 then ctx
      else seq [ ctx_beginPath,
                 ctx_moveTo (x (stroke ! 0)) (y (stroke ! 0)),
                 fold (\<lambda>i. ctx_lineTo (x (stroke ! i)) (y (stroke ! i))) [1 ..< length stroke],
                 ctx_stroke ] ctx)"

definition drawMaskShape ::
  "Ctx \<Rightarrow> MaskType \<Rightarrow> real \<Rightarrow> real \<Rightarrow> string \<Rightarrow> real \<Rightarrow> Point list list \<Rightarrow> real \<Rightarrow> Ctx" where
  "drawMaskShape ctx0 ty w h txt fontSz strokes brushSz =
     (let ctx = seq [ set_fillStyle ''#FFFFFF'', set_strokeStyle ''#FFFFFF'',
                      set_lineCap ''round'', set_lineJoin ''round'' ] ctx0;
          cx = w / 2;
          cy = h / 2;
          minDim = min w h
      in case ty of
           NONE \<Rightarrow> ctx
         | HAND \<Rightarrow> ctx
         | CIRCLE \<Rightarrow> seq [ ctx_beginPath, ctx_arc cx cy (minDim / 2) 0 (pi * 2), ctx_fill ] ctx
         | RECTANGLE \<Rightarrow> ctx_fillRect 0 0 w h ctx
         | SPLIT \<Rightarrow> seq [ ctx_beginPath, ctx_moveTo 0 0, ctx_lineTo w 0, ctx_lineTo 0 h,
                          ctx_closePath, ctx_fill ] ctx
         | STAR \<Rightarrow> drawStar ctx cx cy 5 (minDim / 2) (minDim / 4)
         | HEART \<Rightarrow> drawHeart ctx cx (cy - minDim / 2) minDim minDim
         | TEXT \<Rightarrow> seq [ set_font (Font 900 fontSz ''Inter, sans-serif''),
                         set_textAlign ''center'', set_textBaseline ''middle'',
                         ctx_fillText txt cx cy ] ctx
         | FILMSTRIP \<Rightarrow> drawFilmstrip ctx w h
         | BRUSH \<Rightarrow> fold drawStroke strokes (set_lineWidth brushSz ctx)
         | PEN \<Rightarrow> fold drawStroke strokes (set_lineWidth 4 ctx))"

section \<open>Compositor (the render effect of CanvasLayer)\<close>

text \<open>
  The checkerboard loops. The loop variables \<open>r\<close> and \<open>c\<close> of the source are the
  multiples \<open>20 * i\<close> and \<open>20 * j\<close> of the cell size, and its test
  \<^verbatim>\<open>(r/cellSize + c/cellSize) % 2 === 0\<close> is that \<open>i + j\<close> is even.
\<close>

function checkerCols :: "real \<Rightarrow> nat \<Rightarrow> nat \<Rightarrow> Ctx \<Rightarrow> Ctx" where
  "checkerCols w i j ctx =
     (if real (20 * j) < w
      then checkerCols w i (j + 1)
             (if even (i + j) then ctx_fillRect (real (20 * j)) (real (20 * i)) 20 20 ctx else ctx)
      else ctx)"
  by pat_completeness auto
termination
proof (relation "measure (\<lambda>(w, i, j, ctx). nat \<lceil>w / 20\<rceil> - j)")
  show "wf (measure (\<lambda>(w, i, j, ctx). nat \<lceil>w / 20\<rceil> - j))"
    by simp
next
  fix w :: real and i j :: nat and ctx :: Ctx
  assume "real (20 * j) < w"
  then have "real j < w / 20" by simp
  then have "int j < \<lceil>w / 20\<rceil>" by linarith
  then show "((w, i, j + 1, if even (i + j)
                then ctx_fillRect (real (20 * j)) (real (20 * i)) 20 20 ctx else ctx),
              (w, i, j, ctx)) \<in> measure (\<lambda>(w, i, j, ctx). nat \<lceil>w / 20\<rceil> - j)"
    by simp
qed

function checkerRows :: "real \<Rightarrow> real \<Rightarrow> nat \<Rightarrow> Ctx \<Rightarrow> Ctx" where
  "checkerRows w h i ctx =
     (if real (20 * i) < h then checkerRows w h (i + 1) (checkerCols w i 0 ctx) else ctx)"
  by pat_completeness auto
termination
proof (relation "measure (\<lambda>(w, h, i, ctx). nat \<lceil>h / 20\<rceil> - i)")
  show "wf (measure (\<lambda>(w, h, i, ctx). nat \<lceil>h / 20\<rceil> - i))"
    by simp
next
  fix w h :: real and i :: nat and ctx :: Ctx
  assume "real (20 * i) < h"
  then have "real i < h / 20" by simp
  then have "int i < \<lceil>h / 20\<rceil>" by linarith
  then show "((w, h, i + 1, checkerCols w i 0 ctx), (w, h, i, ctx))
               \<in> measure (\<lambda>(w, h, i, ctx). nat \<lceil>h / 20\<rceil> - i)"
    by simp
qed

declare checkerCols.simps [simp del] checkerRows.simps [simp del]

text \<open>Step 1 of the effect: the background image scaled to cover, or the checkerboard.\<close>

definition drawBackground :: "real \<Rightarrow> real \<Rightarrow> Image option \<Rightarrow> Ctx \<Rightarrow> Ctx option" where
  "drawBackground w h imgBackground ctx =
     (case imgBackground of
        Some img \<Rightarrow>
          do {
            sw \<leftarrow> jsdiv w (width img);
            sh \<leftarrow> jsdiv h (height img);
            let sc = max sw sh;
            let bx = (w / 2) - (width img / 2) * sc;
            let by = (h / 2) - (height img / 2) * sc;
            Some (ctx_drawImage img bx by (width img * sc) (height img * sc) ctx)
          }
      | None \<Rightarrow>
          Some (seq [ set_fillStyle ''#1e293b'',
                      ctx_fillRect 0 0 w h,
                      set_fillStyle ''#334155'',
                      checkerRows w h 0 ] ctx))"

text \<open>
  Step 2: the mask canvas, with the shape under the transformation of the configuration and
  then the strokes. \<^verbatim>\<open>maskConfig.shape || MaskType.CIRCLE\<close> is \<open>shape\<close>: every
  \<open>MaskType\<close> is a non-empty string.
\<close>

definition prepareMask :: "real \<Rightarrow> real \<Rightarrow> MaskConfig \<Rightarrow> Ctx" where
  "prepareMask w h mc =
     (let maskCtx = createCanvas w h;
          cx = x mc * w;
          cy = y mc * h;
          maskCtx = seq [ ctx_save,
                          ctx_translate cx cy,
                          ctx_rotate ((rotation mc * pi) / 180),
                          ctx_scale (scale mc) (scale mc),
                          ctx_translate (- w / 2) (- h / 2),
                          (\<lambda>c. drawMaskShape c (shape mc) w h (text mc) (fontSize mc) [] 0),
                          ctx_restore ] maskCtx
      in if length (brushPoints mc) > 0
         then let brushStyle = (if type mc = PEN then PEN else BRUSH)
              in drawMaskShape maskCtx brushStyle w h [] 0 (brushPoints mc) (brushSize mc)
         else maskCtx)"

text \<open>Step 3: the foreground scaled to cover, kept where the mask is opaque.\<close>

definition maskedForeground :: "real \<Rightarrow> real \<Rightarrow> Image \<Rightarrow> Ctx \<Rightarrow> Ctx option" where
  "maskedForeground w h imgForeground maskCtx =
     (let layerCtx = createCanvas w h in
      do {
        sw \<leftarrow> jsdiv w (width imgForeground);
        sh \<leftarrow> jsdiv h (height imgForeground);
        let fgScale = max sw sh;
        let fgX = (w / 2) - (width imgForeground / 2) * fgScale;
        let fgY = (h / 2) - (height imgForeground / 2) * fgScale;
        Some (seq [ ctx_drawImage imgForeground fgX fgY
                      (width imgForeground * fgScale) (height imgForeground * fgScale),
                    set_globalCompositeOperation ''destination-in'',
                    ctx_drawCanvas maskCtx 0 0 ] layerCtx)
      })"

text \<open>
  The effect on the context of the mounted canvas (it does nothing while the canvas or its
  context is missing). \<open>Document\<close> tells whether \<^verbatim>\<open>getContext\<close> gives a context for
  the mask canvas and for the layer canvas.
\<close>

record Document =
  maskContext :: bool
  layerContext :: bool

definition render ::
  "Document \<Rightarrow> real \<Rightarrow> real \<Rightarrow> Image option \<Rightarrow> Image option \<Rightarrow> MaskConfig \<Rightarrow> Ctx \<Rightarrow> Ctx option" where
  "render doc w h imgForeground imgBackground mc ctx =
     do {
       ctx1 \<leftarrow> drawBackground w h imgBackground (ctx_clearRect 0 0 w h ctx);
       case imgForeground of
         None \<Rightarrow> Some ctx1
       | Some fg \<Rightarrow>
           if \<not> maskContext doc then Some ctx1
           else
             let maskCtx = prepareMask w h mc in
             if \<not> layerContext doc then Some ctx1
             else do {
               layerCtx \<leftarrow> maskedForeground w h fg maskCtx;
               Some (seq [ ctx_save,
                           set_globalAlpha (opacity mc),
                           ctx_drawCanvas layerCtx 0 0,
                           ctx_restore ] ctx1)
             }
     }"


section \<open>Notions of the specification\<close>

text \<open>
  The specification speaks of the centroid of the active pointers and of their mean distance
  from it. These two definitions follow its words; \<open>getCentroid\<close> is compared with them.
\<close>

definition centroid_of :: "Point list \<Rightarrow> Point" where
  "centroid_of ps =
     \<lparr> x = sum_list (map x ps) / real (length ps), y = sum_list (map y ps) / real (length ps) \<rparr>"

definition mean_distance_from :: "Point \<Rightarrow> Point list \<Rightarrow> real" where
  "mean_distance_from c ps =
     sum_list (map (\<lambda>p. sqrt ((x p - x c)\<^sup>2 + (y p - y c)\<^sup>2)) ps) / real (length ps)"

text \<open>
  The gesture baseline of the specification for a camera and a set of pointers: the camera,
  the centroid of the pointers and their mean distance from it; none without pointers.
\<close>

definition baseline_of :: "Transform \<Rightarrow> (int \<times> Point) list \<Rightarrow> GestureStart option" where
  "baseline_of t al =
     (if al = [] then None
      else Some \<lparr> center = centroid_of (map snd al),
                  distance = mean_distance_from (centroid_of (map snd al)) (map snd al),
                  GestureStart.transform = t \<rparr>)"

text \<open>
  The clamp that wheel zoom and pinch apply to a scale, \<^verbatim>\<open>Math.min(Math.max(v, 0.05), 20)\<close>,
  and the zoom of the camera that is displayed.
\<close>

definition clampScale :: "real \<Rightarrow> real" where
  "clampScale v = min (max v 0.05) 20"


definition cameraScale :: "AppState \<Rightarrow> real" where
  "cameraScale s = scale (AppState.transform s)"

text \<open>
  The polyline of a stroke under a transformation, and the operation that paints it as the
  rasterizer sets it up: white, with round caps and joins, of a given width.
\<close>

definition polyline :: "XForm list \<Rightarrow> Point list \<Rightarrow> Path" where
  "polyline m s = (m, MoveTo (x (hd s)) (y (hd s))) # map (\<lambda>p. (m, LineTo (x p) (y p))) (tl s)"

definition strokeOf :: "DrawingState \<Rightarrow> Point list \<Rightarrow> Paint" where
  "strokeOf d s =
     Stroke (Compositing.truncate d) (strokeStyle d) (lineWidth d) (lineCap d) (lineJoin d)
       (polyline (ctm d) s)"

definition strokePaint :: "Ctx \<Rightarrow> real \<Rightarrow> Point list \<Rightarrow> Paint" where
  "strokePaint ctx lw s =
     Stroke (Compositing.truncate ctx) ''#FFFFFF'' lw ''round'' ''round'' (polyline (ctm ctx) s)"

text \<open>
  Two contexts paint alike when they agree on the compositing settings, on the fill style and
  on what is on the canvas. \<open>mounted w h\<close> is the context of the canvas element that React
  keeps at the attributes \<open>width = w\<close> and \<open>height = h\<close>; the program never transforms it.
  \<open>unchanged_settings\<close> relates a context to a later one with the same compositing
  settings, saved states and size.
\<close>

definition sameInk :: "Ctx \<Rightarrow> Ctx \<Rightarrow> bool" where
  "sameInk c1 c2 \<longleftrightarrow>
     Compositing.truncate c1 = Compositing.truncate c2 \<and> fillStyle c1 = fillStyle c2
     \<and> drawn c1 = drawn c2"

definition mounted :: "real \<Rightarrow> real \<Rightarrow> Ctx \<Rightarrow> bool" where
  "mounted w h c \<longleftrightarrow>
     canvasWidth c = canvasDim 300 w \<and> canvasHeight c = canvasDim 150 h \<and> ctm c = []"

definition unchanged_settings :: "Ctx \<Rightarrow> Ctx \<Rightarrow> bool" where
  "unchanged_settings c c' \<longleftrightarrow>
     Compositing.truncate c' = Compositing.truncate c \<and> stack c' = stack c
     \<and> canvasWidth c' = canvasWidth c \<and> canvasHeight c' = canvasHeight c"

section \<open>Example inputs\<close>

definition exRect :: DOMRect where
  "exRect = \<lparr> width = 1048, height = 1140, left = 0, top = 0 \<rparr>"

definition exEnv :: Env where
  "exEnv = \<lparr> innerWidth = 1048, innerHeight = 1140, viewportRect = Some exRect, now = 1000 \<rparr>"

definition exState :: AppState where
  "exState = initialState exEnv"

definition exWheel :: WheelEvent where
  "exWheel = \<lparr> clientX = 100, clientY = 100, deltaY = - 1 \<rparr>"

definition exPointer :: PointerEvent where
  "exPointer = \<lparr> clientX = 6, clientY = 8, pointerId = 2, isPrimary = False \<rparr>"

definition exGesture :: GestureStart where
  "exGesture = \<lparr> center = \<lparr> x = 3, y = 4 \<rparr>, distance = 5,
                 GestureStart.transform = \<lparr> x = 0, y = 0, scale = 1 \<rparr> \<rparr>"

definition exPinch :: AppState where
  "exPinch = (initialState exEnv)
     \<lparr> pointersRef := [(1, \<lparr> x = 0, y = 0 \<rparr>), (2, \<lparr> x = 6, y = 8 \<rparr>)],
       gestureStartRef := Some exGesture \<rparr>"

definition exWide :: AppState where
  "exWide = exState\<lparr> canvasSize := \<lparr> width = 100000, height = 1000 \<rparr> \<rparr>"

definition exZoomedOut :: AppState where
  "exZoomedOut = exState\<lparr> transform := \<lparr> x = 0, y = 0, scale = 0.1 \<rparr> \<rparr>"

definition exSmallImage :: Image where
  "exSmallImage = \<lparr> width = 500, height = 400, src = ''small'' \<rparr>"

definition exLargeImage :: Image where
  "exLargeImage = \<lparr> width = 2000, height = 1600, src = ''large'' \<rparr>"

definition exTap :: AppState where
  "exTap = exState\<lparr> transformRef := \<lparr> x = 0, y = 0, scale = 0.5 \<rparr>, lastTapRef := 900 \<rparr>"

definition exGenerating :: AppState where
  "exGenerating = exState\<lparr> isGenerating := True \<rparr>"

definition exStroke :: "Point list" where
  "exStroke = [\<lparr> x = 1, y = 2 \<rparr>, \<lparr> x = 3, y = 4 \<rparr>]"

definition exDrawn :: AppState where
  "exDrawn = exState\<lparr> maskConfig := DEFAULT_MASK_CONFIG\<lparr>
               type := BRUSH, shape := NONE, brushPoints := [exStroke], rotation := 45 \<rparr> \<rparr>"

definition exHistory :: AppState where
  "exHistory = exDrawn\<lparr> past := [DEFAULT_MASK_CONFIG],
                         future := [DEFAULT_MASK_CONFIG\<lparr> type := HAND \<rparr>] \<rparr>"

definition exZeroGesture :: GestureStart where
  "exZeroGesture = \<lparr> center = \<lparr> x = 5, y = 5 \<rparr>, distance = 0,
                     GestureStart.transform = \<lparr> x = 0, y = 0, scale = 1 \<rparr> \<rparr>"

definition exCoincide :: AppState where
  "exCoincide = exState
     \<lparr> pointersRef := [(1, \<lparr> x = 5, y = 5 \<rparr>), (2, \<lparr> x = 5, y = 5 \<rparr>)],
       gestureStartRef := Some exZeroGesture \<rparr>"

definition exCanvas :: HTMLCanvasElement where
  "exCanvas = \<lparr> width = 200, height = 200,
                boundingClientRect = \<lparr> width = 100, height = 100, left = 0, top = 0 \<rparr> \<rparr>"

definition exDown :: PointerEvent where
  "exDown = \<lparr> clientX = 6, clientY = 8, pointerId = 1, isPrimary = True \<rparr>"

definition exBrush :: AppState where
  "exBrush = exState\<lparr> maskConfig := DEFAULT_MASK_CONFIG\<lparr> type := BRUSH, shape := NONE \<rparr> \<rparr>"

definition exLayer :: LayerState where
  "exLayer = \<lparr> isDragging = False, lastPos = \<lparr> x = 0, y = 0 \<rparr> \<rparr>"

definition exDocument :: Document where
  "exDocument = \<lparr> maskContext = True, layerContext = True \<rparr>"

definition exDirty :: Ctx where
  "exDirty = (createCanvas 800 600)
     \<lparr> fillStyle := ''#334155'',
       drawn := [FillRect \<lparr> ctm = [], globalAlpha = 1, globalCompositeOperation = ''source-over'' \<rparr>
                   ''#1e293b'' 0 0 800 600] \<rparr>"

definition exTapFit :: AppState where
  "exTapFit = exState\<lparr> lastTapRef := 900 \<rparr>"

section \<open>Auxiliary lemmas\<close>

lemma fold_add_sum_list: "fold (\<lambda>p a. a + f p) ps (a0::real) = a0 + sum_list (map f ps)"
  by (induction ps arbitrary: a0) simp_all

lemma clampScale_range: "0.05 \<le> clampScale v \<and> clampScale v \<le> 20"
  by (simp add: clampScale_def min_def max_def)

lemma getCentroid_nonempty:
  assumes "ps \<noteq> []"
  shows "getCentroid ps =
           Some \<lparr> center = centroid_of ps, distance = mean_distance_from (centroid_of ps) ps \<rparr>"
proof (cases "length ps > 1")
  case True
  then show ?thesis
    using assms
    by (simp add: getCentroid_def jsdiv_def fold_add_sum_list centroid_of_def
        mean_distance_from_def hypot_def Let_def)
next
  case False
  with assms obtain p where ps: "ps = [p]"
    by (cases ps) auto
  show ?thesis
    by (simp add: ps getCentroid_def jsdiv_def centroid_of_def mean_distance_from_def hypot_def)
qed

lemma pinchScale_total: "\<exists>v. pinchScale n g cur = Some v"
  by (simp add: pinchScale_def jsdiv_def Let_def)

lemma pinchScale_value:
  "pinchScale n g cur =
     Some (clampScale (if n > 1 \<and> distance g > 0
                       then scale (GestureStart.transform g) * (distance cur / distance g)
                       else scale (GestureStart.transform g)))"
  by (simp add: pinchScale_def jsdiv_def Let_def clampScale_def)

lemma exp_015_bounds: "0.05 \<le> exp (0.15::real) \<and> exp (0.15::real) \<le> 20"
proof
  have "(0.05::real) \<le> 1" by simp
  also have "(1::real) \<le> exp 0.15" by simp
  finally show "0.05 \<le> exp (0.15::real)" .
  have "exp (0.15::real) \<le> exp 1" by simp
  also have "\<dots> \<le> 3" by (rule exp_le)
  also have "(3::real) \<le> 20" by simp
  finally show "exp (0.15::real) \<le> 20" .
qed

lemma handleWheel_open:
  assumes "\<not> isGenerating s" "\<not> showGenModal s" "viewportRect env = Some rect"
    and "scale (transformRef s) \<noteq> 0"
  shows "handleWheel env e s =
     Some (s\<lparr> transform :=
       \<lparr> x = (clientX e - left rect)
               - ((clientX e - left rect) - x (transformRef s)) / scale (transformRef s)
                 * clampScale (scale (transformRef s) * exp (- sgn (deltaY e) * 0.15)),
         y = (clientY e - top rect)
               - ((clientY e - top rect) - y (transformRef s)) / scale (transformRef s)
                 * clampScale (scale (transformRef s) * exp (- sgn (deltaY e) * 0.15)),
         scale = clampScale (scale (transformRef s) * exp (- sgn (deltaY e) * 0.15)) \<rparr> \<rparr>)"
  using assms by (simp add: handleWheel_def jsdiv_def Let_def clampScale_def)

lemma handleWheel_gated:
  assumes "isGenerating s \<or> showGenModal s \<or> viewportRect env = None"
  shows "handleWheel env e s = Some s"
  using assms by (auto simp add: handleWheel_def)

lemma updateGestureStart_eq:
  "updateGestureStart s = Some (s\<lparr> gestureStartRef := baseline_of (transformRef s) (pointersRef s) \<rparr>)"
  by (cases "pointersRef s = []") (simp_all add: updateGestureStart_def baseline_of_def getCentroid_nonempty)

lemma length_AList_update:
  "length (AList.update k v al) = (if k \<in> fst ` set al then length al else Suc (length al))"
  by (induction al) auto

lemma handlePointerDown_baseline:
  assumes "handlePointerDown env e s = Some s'"
  shows "pointersRef s' = AList.update (pointerId e) \<lparr> x = clientX e, y = clientY e \<rparr> (pointersRef s)
       \<and> gestureStartRef s' = baseline_of (transformRef s) (pointersRef s')"
  using assms
  by (auto simp add: handlePointerDown_def updateGestureStart_eq handleFitToScreen_def centerImage_def
      jsdiv_def Let_def split: if_splits option.splits bind_splits)

lemma handlePointerDown_total:
  assumes "scale (transformRef s) \<noteq> 0" "width (canvasSize s) \<noteq> 0" "height (canvasSize s) \<noteq> 0"
  shows "\<exists>s'. handlePointerDown env e s = Some s'"
  using assms
  by (auto simp add: handlePointerDown_def updateGestureStart_eq handleFitToScreen_def centerImage_def
      jsdiv_def Let_def split: if_splits option.splits)

lemma handlePointerUp_eq:
  "handlePointerUp e s =
     Some (s\<lparr> pointersRef := AList.delete (pointerId e) (pointersRef s),
              gestureStartRef := baseline_of (transformRef s) (AList.delete (pointerId e) (pointersRef s)) \<rparr>)"
  by (simp add: handlePointerUp_def updateGestureStart_eq)

lemma handlePointerMove_processed:
  assumes "pointerId e \<in> fst ` set (pointersRef s)" "gestureStartRef s = Some g"
    and "length (pointersRef s) \<noteq> 1 \<or> type (maskConfig s) = HAND"
    and "scale (GestureStart.transform g) \<noteq> 0"
  shows "\<exists>s' v. handlePointerMove env e s = Some s'
      \<and> pointersRef s' = AList.update (pointerId e) \<lparr> x = clientX e, y = clientY e \<rparr> (pointersRef s)
      \<and> pinchScale (length (pointersRef s')) g
            \<lparr> center = centroid_of (map snd (pointersRef s')),
              distance = mean_distance_from (centroid_of (map snd (pointersRef s'))) (map snd (pointersRef s')) \<rparr>
          = Some v
      \<and> scale (AppState.transform s') = v"
proof -
  let ?al = "AList.update (pointerId e) \<lparr> x = clientX e, y = clientY e \<rparr> (pointersRef s)"
  have len: "length ?al = length (pointersRef s)"
    using assms(1) by (simp add: length_AList_update)
  have ne: "map snd ?al \<noteq> []"
    by simp
  obtain v where v: "pinchScale (length ?al) g
       \<lparr> center = centroid_of (map snd ?al),
         distance = mean_distance_from (centroid_of (map snd ?al)) (map snd ?al) \<rparr> = Some v"
    using pinchScale_total by blast
  show ?thesis
    using assms len v
    by (auto simp add: handlePointerMove_def getCentroid_nonempty [OF ne] jsdiv_def Let_def)
qed

lemma tl_conv_nth: "map (\<lambda>i. f (s ! i)) [Suc 0 ..< length s] = map f (tl s)"
  by (rule nth_equalityI) (simp_all add: nth_tl)

lemma fold_lineTo:
  "fold (\<lambda>i. ctx_lineTo (f i) (g i)) js c
     = c\<lparr> path := path c @ map (\<lambda>i. (ctm c, LineTo (f i) (g i))) js \<rparr>"
  by (induction js arbitrary: c) (simp_all add: ctx_lineTo_def addPath_def)

lemma drawStroke_empty: "drawStroke [] c = c"
  by (simp add: drawStroke_def)

lemma drawStroke_nonempty:
  assumes "s \<noteq> []"
  shows "drawStroke s c =
           c\<lparr> path := polyline (ctm c) s,
              drawn := drawn c @ [strokeOf (DrawingState.truncate c) s] \<rparr>"
proof -
  have l: "\<not> length s < 1" using assms by (cases s) simp_all
  have h: "s ! 0 = hd s" using assms by (simp add: hd_conv_nth)
  have m: "map (\<lambda>i. (ctm c, LineTo (x (s ! i)) (y (s ! i)))) [Suc 0 ..< length s]
             = map (\<lambda>p. (ctm c, LineTo (x p) (y p))) (tl s)"
    by (rule tl_conv_nth)
  show ?thesis
    using l
    by (simp add: drawStroke_def seq_def fold_lineTo ctx_beginPath_def ctx_moveTo_def addPath_def
        ctx_stroke_def paint_def polyline_def m h strokeOf_def
        Compositing.truncate_def DrawingState.truncate_def)
qed

lemma drawStroke_state: "DrawingState.truncate (drawStroke s c) = DrawingState.truncate c"
  by (cases "s = []") (simp_all add: drawStroke_empty drawStroke_nonempty DrawingState.truncate_def)

lemma drawStroke_drawn:
  "drawn (drawStroke s c)
     = drawn c @ (if s = [] then [] else [strokeOf (DrawingState.truncate c) s])"
  by (simp add: drawStroke_empty drawStroke_nonempty)

lemma fold_drawStroke:
  "DrawingState.truncate (fold drawStroke ss c) = DrawingState.truncate c
   \<and> drawn (fold drawStroke ss c)
       = drawn c @ map (strokeOf (DrawingState.truncate c)) (filter (\<lambda>s. s \<noteq> []) ss)"
proof (induction ss arbitrary: c)
  case Nil
  then show ?case by simp
next
  case (Cons s ss)
  show ?case
    by (simp add: Cons drawStroke_state drawStroke_drawn)
qed

lemma sameInk_fillRect:
  "sameInk c1 c2 \<Longrightarrow> sameInk (ctx_fillRect a b w h c1) (ctx_fillRect a b w h c2)"
  by (simp add: sameInk_def ctx_fillRect_def paint_def Compositing.truncate_def)

lemma sameInk_set_fillStyle:
  "Compositing.truncate c1 = Compositing.truncate c2 \<Longrightarrow> drawn c1 = drawn c2
     \<Longrightarrow> sameInk (set_fillStyle v c1) (set_fillStyle v c2)"
  by (simp add: sameInk_def set_fillStyle_def Compositing.truncate_def)

lemma sameInk_checkerCols:
  "sameInk c1 c2 \<Longrightarrow> sameInk (checkerCols w i j c1) (checkerCols w i j c2)"
proof (induction w i j c1 arbitrary: c2 rule: checkerCols.induct)
  case (1 w i j ctx)
  show ?case
  proof (cases "real (20 * j) < w")
    case True
    let ?f = "\<lambda>c. if even (i + j) then ctx_fillRect (real (20 * j)) (real (20 * i)) 20 20 c else c"
    have "sameInk (?f ctx) (?f c2)"
      using "1.prems" by (simp add: sameInk_fillRect)
    then have "sameInk (checkerCols w i (j + 1) (?f ctx)) (checkerCols w i (j + 1) (?f c2))"
      using "1.IH" [OF True] by blast
    then show ?thesis
      using True by (simp add: checkerCols.simps [of w i j])
  next
    case False
    then show ?thesis
      using "1.prems" by (simp add: checkerCols.simps [of w i j])
  qed
qed

lemma sameInk_checkerRows:
  "sameInk c1 c2 \<Longrightarrow> sameInk (checkerRows w h i c1) (checkerRows w h i c2)"
proof (induction w h i c1 arbitrary: c2 rule: checkerRows.induct)
  case (1 w h i ctx)
  show ?case
  proof (cases "real (20 * i) < h")
    case True
    have "sameInk (checkerCols w i 0 ctx) (checkerCols w i 0 c2)"
      using "1.prems" by (rule sameInk_checkerCols)
    then have "sameInk (checkerRows w h (i + 1) (checkerCols w i 0 ctx))
                       (checkerRows w h (i + 1) (checkerCols w i 0 c2))"
      using "1.IH" [OF True] by blast
    then show ?thesis
      using True by (simp add: checkerRows.simps [of w h i])
  next
    case False
    then show ?thesis
      using "1.prems" by (simp add: checkerRows.simps [of w h i])
  qed
qed

lemma unchanged_checkerCols: "unchanged_settings c (checkerCols w i j c)"
proof (induction w i j c rule: checkerCols.induct)
  case (1 w i j ctx)
  show ?case
  proof (cases "real (20 * j) < w")
    case True
    let ?c = "if even (i + j) then ctx_fillRect (real (20 * j)) (real (20 * i)) 20 20 ctx else ctx"
    have "unchanged_settings ctx ?c"
      by (simp add: unchanged_settings_def ctx_fillRect_def paint_def Compositing.truncate_def)
    moreover have "unchanged_settings ?c (checkerCols w i (j + 1) ?c)"
      using "1.IH" [OF True] .
    ultimately show ?thesis
      using True by (simp add: checkerCols.simps [of w i j] unchanged_settings_def)
  next
    case False
    then show ?thesis
      by (simp add: checkerCols.simps [of w i j] unchanged_settings_def)
  qed
qed

lemma unchanged_checkerRows: "unchanged_settings c (checkerRows w h i c)"
proof (induction w h i c rule: checkerRows.induct)
  case (1 w h i ctx)
  show ?case
  proof (cases "real (20 * i) < h")
    case True
    have "unchanged_settings ctx (checkerCols w i 0 ctx)"
      by (rule unchanged_checkerCols)
    moreover have "unchanged_settings (checkerCols w i 0 ctx)
                     (checkerRows w h (i + 1) (checkerCols w i 0 ctx))"
      using "1.IH" [OF True] .
    ultimately show ?thesis
      using True by (simp add: checkerRows.simps [of w h i] unchanged_settings_def)
  next
    case False
    then show ?thesis
      by (simp add: checkerRows.simps [of w h i] unchanged_settings_def)
  qed
qed

lemma clearRect_mounted:
  assumes "0 \<le> w" "0 \<le> h" "mounted w h c"
  shows "ctx_clearRect 0 0 w h c = c\<lparr> drawn := [] \<rparr>"
proof -
  have "real (nat \<lfloor>w\<rfloor>) \<le> w" "real (nat \<lfloor>h\<rfloor>) \<le> h"
    using assms(1,2) by simp_all
  then show ?thesis
    using assms by (simp add: ctx_clearRect_def mounted_def canvasDim_def)
qed

lemma drawBackground_sameInk:
  assumes "Compositing.truncate c1 = Compositing.truncate c2" "drawn c1 = drawn c2"
  shows "(drawBackground w h bg c1 = None \<and> drawBackground w h bg c2 = None)
       \<or> (\<exists>d1 d2. drawBackground w h bg c1 = Some d1 \<and> drawBackground w h bg c2 = Some d2
             \<and> Compositing.truncate d1 = Compositing.truncate d2 \<and> drawn d1 = drawn d2)"
proof (cases bg)
  case None
  have "sameInk (set_fillStyle ''#1e293b'' c1) (set_fillStyle ''#1e293b'' c2)"
    using assms by (rule sameInk_set_fillStyle)
  then have "sameInk (ctx_fillRect 0 0 w h (set_fillStyle ''#1e293b'' c1))
                     (ctx_fillRect 0 0 w h (set_fillStyle ''#1e293b'' c2))"
    by (rule sameInk_fillRect)
  then have "sameInk (set_fillStyle ''#334155'' (ctx_fillRect 0 0 w h (set_fillStyle ''#1e293b'' c1)))
                     (set_fillStyle ''#334155'' (ctx_fillRect 0 0 w h (set_fillStyle ''#1e293b'' c2)))"
    by (simp add: sameInk_def set_fillStyle_def Compositing.truncate_def)
  then have "sameInk
        (checkerRows w h 0 (set_fillStyle ''#334155'' (ctx_fillRect 0 0 w h (set_fillStyle ''#1e293b'' c1))))
        (checkerRows w h 0 (set_fillStyle ''#334155'' (ctx_fillRect 0 0 w h (set_fillStyle ''#1e293b'' c2))))"
    by (rule sameInk_checkerRows)
  then show ?thesis
    using None by (simp add: drawBackground_def seq_def sameInk_def)
next
  case (Some img)
  then show ?thesis
    using assms
    by (auto simp add: drawBackground_def jsdiv_def ctx_drawImage_def paint_def Let_def
        Compositing.truncate_def)
qed

lemma drawBackground_unchanged:
  assumes "drawBackground w h bg c = Some d"
  shows "unchanged_settings c d"
proof (cases bg)
  case None
  let ?c = "set_fillStyle ''#334155'' (ctx_fillRect 0 0 w h (set_fillStyle ''#1e293b'' c))"
  have "unchanged_settings c ?c"
    by (simp add: unchanged_settings_def set_fillStyle_def ctx_fillRect_def paint_def
        Compositing.truncate_def)
  moreover have "unchanged_settings ?c (checkerRows w h 0 ?c)"
    by (rule unchanged_checkerRows)
  moreover have "d = checkerRows w h 0 ?c"
    using assms None by (simp add: drawBackground_def seq_def)
  ultimately show ?thesis
    by (simp add: unchanged_settings_def)
next
  case (Some img)
  then show ?thesis
    using assms
    by (auto simp add: drawBackground_def jsdiv_def ctx_drawImage_def paint_def Let_def
        unchanged_settings_def Compositing.truncate_def split: if_splits)
qed

lemma composite_drawn:
  "drawn (seq [ctx_save, set_globalAlpha a, ctx_drawCanvas layer 0 0, ctx_restore] c)
     = drawn c @ [DrawCanvas (Compositing.truncate (set_globalAlpha a c))
                    (canvasWidth layer) (canvasHeight layer) (drawn layer) 0 0]"
  by (simp add: seq_def ctx_save_def set_globalAlpha_def ctx_drawCanvas_def paint_def
      ctx_restore_def Compositing.truncate_def DrawingState.truncate_def)

lemma composite_unchanged:
  "unchanged_settings c (seq [ctx_save, set_globalAlpha a, ctx_drawCanvas layer 0 0, ctx_restore] c)"
  by (simp add: seq_def ctx_save_def set_globalAlpha_def ctx_drawCanvas_def paint_def
      ctx_restore_def Compositing.truncate_def DrawingState.truncate_def unchanged_settings_def)

lemma set_globalAlpha_compositing:
  "Compositing.truncate c1 = Compositing.truncate c2
     \<Longrightarrow> Compositing.truncate (set_globalAlpha a c1) = Compositing.truncate (set_globalAlpha a c2)"
  by (simp add: set_globalAlpha_def Compositing.truncate_def)

lemma render_drawn_eq:
  assumes "0 \<le> w" "0 \<le> h" "mounted w h c1" "mounted w h c2"
    and "globalAlpha c1 = globalAlpha c2"
    and "globalCompositeOperation c1 = globalCompositeOperation c2"
  shows "map_option drawn (render doc w h fg bg mc c1) = map_option drawn (render doc w h fg bg mc c2)"
proof -
  let ?b1 = "c1\<lparr> drawn := [] \<rparr>" and ?b2 = "c2\<lparr> drawn := [] \<rparr>"
  have cl: "ctx_clearRect 0 0 w h c1 = ?b1" "ctx_clearRect 0 0 w h c2 = ?b2"
    using assms by (simp_all add: clearRect_mounted)
  have e: "Compositing.truncate ?b1 = Compositing.truncate ?b2" "drawn ?b1 = drawn ?b2"
    using assms by (simp_all add: Compositing.truncate_def mounted_def)
  from drawBackground_sameInk [OF e, of w h bg]
  show ?thesis
  proof
    assume "drawBackground w h bg ?b1 = None \<and> drawBackground w h bg ?b2 = None"
    then show ?thesis by (simp add: render_def cl)
  next
    assume "\<exists>d1 d2. drawBackground w h bg ?b1 = Some d1 \<and> drawBackground w h bg ?b2 = Some d2
             \<and> Compositing.truncate d1 = Compositing.truncate d2 \<and> drawn d1 = drawn d2"
    then obtain d1 d2 where d: "drawBackground w h bg ?b1 = Some d1" "drawBackground w h bg ?b2 = Some d2"
      "Compositing.truncate d1 = Compositing.truncate d2" "drawn d1 = drawn d2"
      by blast
    show ?thesis
      using d set_globalAlpha_compositing [OF d(3), of "opacity mc"]
      by (cases fg; cases "maskedForeground w h (the fg) (prepareMask w h mc)")
         (simp_all add: render_def cl composite_drawn Let_def)
  qed
qed

lemma handlePointerDown_doubleTap:
  assumes "pointersRef s = []" "now env - lastTapRef s < 300" "scale (transformRef s) < 1"
    and "scale (transformRef s) \<noteq> 0" "viewportRect env = Some rect"
  shows "\<exists>s'. handlePointerDown env e s = Some s' \<and> scale (AppState.transform s') = 1"
  using assms
  by (simp add: handlePointerDown_def updateGestureStart_eq jsdiv_def Let_def)

lemma centerImage_eq:
  assumes "w \<noteq> 0" "h \<noteq> 0"
  shows "centerImage env w h s =
     Some (s\<lparr> transform :=
       \<lparr> x = (innerWidth env - w * min (min ((innerWidth env - 48) / w) ((innerHeight env - 140) / h)) 1) / 2,
         y = (innerHeight env - h * min (min ((innerWidth env - 48) / w) ((innerHeight env - 140) / h)) 1) / 2,
         scale = min (min ((innerWidth env - 48) / w) ((innerHeight env - 140) / h)) 1 \<rparr> \<rparr>)"
  using assms by (simp add: centerImage_def jsdiv_def Let_def)

lemma handleUpscaleLayer_onload_eq:
  assumes "width img \<noteq> 0" "width newImg \<noteq> 0"
  shows "handleUpscaleLayer_onload 1 img newImg s =
     Some (s\<lparr> img1 := Some newImg,
              canvasSize := \<lparr> width = width newImg, height = height newImg \<rparr>,
              maskConfig := (maskConfig s)\<lparr>
                fontSize := fontSize (maskConfig s) * (width newImg / width img),
                brushSize := brushSize (maskConfig s) * (width newImg / width img),
                brushPoints :=
                  map (map (\<lambda>p. \<lparr> x = x p * (width newImg / width img),
                                     y = y p * (width newImg / width img) \<rparr>))
                      (brushPoints (maskConfig s)) \<rparr>,
              transform := (AppState.transform s)\<lparr>
                scale := scale (AppState.transform s) / (width newImg / width img) \<rparr>,
              upscalingLayer := None \<rparr>)"
  using assms by (simp add: handleUpscaleLayer_onload_def jsdiv_def Let_def)

lemma getCentroid_coincide:
  "getCentroid (replicate (Suc k) p) = Some \<lparr> center = p, distance = 0 \<rparr>"
proof -
  have c: "centroid_of (replicate (Suc k) p) = p"
    by (simp add: centroid_of_def sum_list_replicate map_replicate del: replicate.simps)
  have d: "mean_distance_from p (replicate (Suc k) p) = 0"
    by (simp add: mean_distance_from_def sum_list_replicate map_replicate del: replicate.simps)
  have "replicate (Suc k) p \<noteq> []" by simp
  from getCentroid_nonempty [OF this] show ?thesis
    by (simp only: c d)
qed

lemma drawStrokes_with_width:
  assumes "0 < lw"
  shows "drawn (fold drawStroke strokes
                 (set_lineWidth lw (seq [set_fillStyle ''#FFFFFF'', set_strokeStyle ''#FFFFFF'',
                                         set_lineCap ''round'', set_lineJoin ''round''] ctx)))
           = drawn ctx @ map (strokePaint ctx lw) (filter (\<lambda>s. s \<noteq> []) strokes)
       \<and> lineWidth (fold drawStroke strokes
                 (set_lineWidth lw (seq [set_fillStyle ''#FFFFFF'', set_strokeStyle ''#FFFFFF'',
                                         set_lineCap ''round'', set_lineJoin ''round''] ctx))) = lw"
proof -
  let ?c = "set_lineWidth lw (seq [set_fillStyle ''#FFFFFF'', set_strokeStyle ''#FFFFFF'',
                                   set_lineCap ''round'', set_lineJoin ''round''] ctx)"
  have t: "DrawingState.truncate ?c
       = (DrawingState.truncate ctx)\<lparr> fillStyle := ''#FFFFFF'', strokeStyle := ''#FFFFFF'',
            lineWidth := lw, lineCap := ''round'', lineJoin := ''round'' \<rparr>"
    and d: "drawn ?c = drawn ctx"
    using assms
    by (simp_all add: seq_def set_fillStyle_def set_strokeStyle_def set_lineCap_def
        set_lineJoin_def set_lineWidth_def DrawingState.truncate_def)
  have s: "strokeOf (DrawingState.truncate ?c) = strokePaint ctx lw"
    unfolding t by (rule ext) (simp add: strokeOf_def strokePaint_def DrawingState.truncate_def
        Compositing.truncate_def)
  have "lineWidth (DrawingState.truncate (fold drawStroke strokes ?c)) = lw"
    using fold_drawStroke [of strokes ?c] t by simp
  then have "lineWidth (fold drawStroke strokes ?c) = lw"
    by (simp add: DrawingState.truncate_def)
  then show ?thesis
    using fold_drawStroke [of strokes ?c] s d by simp
qed

lemma render_unchanged:
  assumes "0 \<le> w" "0 \<le> h" "mounted w h c" "render doc w h fg bg mc c = Some c'"
  shows "unchanged_settings c c'"
proof -
  have cl: "ctx_clearRect 0 0 w h c = c\<lparr> drawn := [] \<rparr>"
    using assms by (simp add: clearRect_mounted)
  from assms(4) obtain d where d: "drawBackground w h bg (c\<lparr> drawn := [] \<rparr>) = Some d"
    by (auto simp add: render_def cl split: bind_splits)
  have u: "unchanged_settings c d"
    using drawBackground_unchanged [OF d]
    by (simp add: unchanged_settings_def Compositing.truncate_def)
  have "c' = d \<or> (\<exists>layer. c' = seq [ctx_save, set_globalAlpha (opacity mc),
                                      ctx_drawCanvas layer 0 0, ctx_restore] d)"
    using assms(4) d
    by (auto simp add: render_def cl Let_def split: option.splits if_splits bind_splits)
  then show ?thesis
  proof
    assume "c' = d"
    with u show ?thesis by simp
  next
    assume "\<exists>layer. c' = seq [ctx_save, set_globalAlpha (opacity mc),
                              ctx_drawCanvas layer 0 0, ctx_restore] d"
    then obtain layer where "c' = seq [ctx_save, set_globalAlpha (opacity mc),
                              ctx_drawCanvas layer 0 0, ctx_restore] d"
      by blast
    then have "unchanged_settings d c'"
      by (simp add: composite_unchanged)
    with u show ?thesis
      by (simp add: unchanged_settings_def)
  qed
qed

lemma render_total:
  assumes "\<forall>img. fg = Some img \<or> bg = Some img \<longrightarrow> width img \<noteq> 0 \<and> height img \<noteq> 0"
  shows "\<exists>c'. render doc w h fg bg mc c = Some c'"
proof -
  have b: "\<exists>d. drawBackground w h bg (ctx_clearRect 0 0 w h c) = Some d"
    using assms by (cases bg) (simp_all add: drawBackground_def jsdiv_def Let_def)
  have f: "\<And>img m. fg = Some img \<Longrightarrow> \<exists>l. maskedForeground w h img m = Some l"
    using assms by (simp add: maskedForeground_def jsdiv_def Let_def)
  from b obtain d where "drawBackground w h bg (ctx_clearRect 0 0 w h c) = Some d"
    by blast
  then show ?thesis
    using f [of _ "prepareMask w h mc"]
    by (cases fg) (auto simp add: render_def Let_def)
qed

lemma handlePointerDown_doubleTap_fit:
  assumes "pointersRef s = []" "now env - lastTapRef s < 300" "1 \<le> scale (transformRef s)"
    and "width (canvasSize s) \<noteq> 0" "height (canvasSize s) \<noteq> 0"
  shows "\<exists>s'. handlePointerDown env e s = Some s'
      \<and> scale (AppState.transform s')
          = min (min ((innerWidth env - 48) / width (canvasSize s))
                     ((innerHeight env - 140) / height (canvasSize s))) 1"
  using assms
  by (simp add: handlePointerDown_def updateGestureStart_eq handleFitToScreen_def centerImage_eq)

section \<open>Claims\<close>

subsection \<open>C1: wheel zoom\<close>

text \<open>
  C1, as stated, for every wheel event: the new camera scale is the old one times
  \<open>exp (- sign deltaY * 0.15)\<close>, clamped to \<open>[0.05, 20]\<close>. The handler returns at once while
  a background is being generated or the generation dialog is open: at such a state a wheel
  event with negative \<open>deltaY\<close> leaves the state, and so the scale 1, as it is, while the
  formula gives \<open>exp 0.15\<close>.
\<close>

theorem wheel_while_generating_counterexample:
  "handleWheel exEnv exWheel exGenerating = Some exGenerating
   \<and> cameraScale exGenerating
       \<noteq> min (max (scale (transformRef exGenerating) * exp (- sgn (deltaY exWheel) * 0.15)) 0.05) 20"
proof
  show "handleWheel exEnv exWheel exGenerating = Some exGenerating"
    by (rule handleWheel_gated) (simp add: exGenerating_def)
  have "clampScale (exp (0.15::real)) = exp 0.15"
    using exp_015_bounds unfolding clampScale_def min_def max_def by auto
  moreover have "(1::real) < exp 0.15"
    by simp
  ultimately have "(1::real) \<noteq> clampScale (exp 0.15)"
    by simp
  then show "cameraScale exGenerating
       \<noteq> min (max (scale (transformRef exGenerating) * exp (- sgn (deltaY exWheel) * 0.15)) 0.05) 20"
    by (simp add: cameraScale_def exGenerating_def exState_def initialState_def exWheel_def
        clampScale_def)
qed

text \<open>
  C1, amended: a wheel event that arrives while no background is being generated, the
  generation dialog is closed and the viewport element is mounted, at a camera of non-zero
  scale, gives a new camera whose scale is the scale that the handler read (\<open>transformRef\<close>,
  the mirror of the camera) times \<open>exp (- sign deltaY * 0.15)\<close>, clamped to \<open>[0.05, 20]\<close>,
  and whose translation keeps the world point under the pointer: that point, taken with the
  old camera, is mapped by the new camera to the position of the pointer, and the new camera
  maps the position of the pointer back to it. In particular, for \<open>deltaY < 0\<close> at the
  viewport point \<open>(100, 100)\<close> with scale 1 and translation \<open>(0, 0)\<close> the new camera has
  scale \<open>exp 0.15\<close> and translation \<open>(100 - 100 * exp 0.15, 100 - 100 * exp 0.15)\<close>.
\<close>

theorem handleWheel_zoom:
  assumes "\<not> isGenerating s" "\<not> showGenModal s" "viewportRect env = Some rect"
    and "scale (transformRef s) \<noteq> 0"
  shows "\<exists>s'. handleWheel env e s = Some s'
     \<and> scale (AppState.transform s')
          = min (max (scale (transformRef s) * exp (- sgn (deltaY e) * 0.15)) 0.05) 20
     \<and> (let px = clientX e - left rect;
             py = clientY e - top rect;
             wx = (px - x (transformRef s)) / scale (transformRef s);
             wy = (py - y (transformRef s)) / scale (transformRef s)
         in wx * scale (AppState.transform s') + x (AppState.transform s') = px
          \<and> wy * scale (AppState.transform s') + y (AppState.transform s') = py
          \<and> (px - x (AppState.transform s')) / scale (AppState.transform s') = wx
          \<and> (py - y (AppState.transform s')) / scale (AppState.transform s') = wy
          \<and> (deltaY e < 0 \<and> px = 100 \<and> py = 100
               \<and> transformRef s = \<lparr> x = 0, y = 0, scale = 1 \<rparr>
              \<longrightarrow> AppState.transform s'
                    = \<lparr> x = 100 - 100 * exp 0.15, y = 100 - 100 * exp 0.15, scale = exp 0.15 \<rparr>))"
proof -
  let ?k = "clampScale (scale (transformRef s) * exp (- sgn (deltaY e) * 0.15))"
  have k: "?k \<noteq> 0"
    using clampScale_range [of "scale (transformRef s) * exp (- sgn (deltaY e) * 0.15)"] by auto
  have sc: "clampScale (exp (0.15::real)) = exp 0.15"
    using exp_015_bounds unfolding clampScale_def min_def max_def by auto
  have sg: "deltaY e < 0 \<Longrightarrow> - sgn (deltaY e) * 0.15 = 0.15"
    by simp
  have "handleWheel env e s = Some (s\<lparr> transform :=
       \<lparr> x = (clientX e - left rect)
               - ((clientX e - left rect) - x (transformRef s)) / scale (transformRef s) * ?k,
         y = (clientY e - top rect)
               - ((clientY e - top rect) - y (transformRef s)) / scale (transformRef s) * ?k,
         scale = ?k \<rparr> \<rparr>)"
    by (rule handleWheel_open [OF assms])
  moreover have "?k = min (max (scale (transformRef s) * exp (- sgn (deltaY e) * 0.15)) 0.05) 20"
    by (simp only: clampScale_def)
  moreover have "deltaY e < 0 \<and> transformRef s = \<lparr> x = 0, y = 0, scale = 1 \<rparr> \<longrightarrow> ?k = exp 0.15"
  proof
    assume a: "deltaY e < 0 \<and> transformRef s = \<lparr> x = 0, y = 0, scale = 1 \<rparr>"
    then have "scale (transformRef s) = 1" by simp
    then have "?k = clampScale (exp (- sgn (deltaY e) * 0.15))" by simp
    also have "\<dots> = clampScale (exp 0.15)" using sg a by presburger
    finally show "?k = exp 0.15" using sc by simp
  qed
  ultimately show ?thesis
    using k by (auto simp only: Let_def) (simp_all)
qed

text \<open>The scenario of C1 at the initial state, in a viewport at the origin of the window.\<close>

theorem handleWheel_zoom_witness:
  "(\<not> isGenerating exState \<and> \<not> showGenModal exState \<and> viewportRect exEnv = Some exRect
      \<and> scale (transformRef exState) \<noteq> 0)
   \<and> (\<exists>s'. handleWheel exEnv exWheel exState = Some s'
          \<and> AppState.transform s'
              = \<lparr> x = 100 - 100 * exp 0.15, y = 100 - 100 * exp 0.15, scale = exp 0.15 \<rparr>)"
proof -
  have h: "\<not> isGenerating exState" "\<not> showGenModal exState" "viewportRect exEnv = Some exRect"
    "scale (transformRef exState) \<noteq> 0"
    by (simp_all add: exState_def initialState_def exEnv_def)
  have i: "deltaY exWheel < 0 \<and> clientX exWheel - left exRect = 100
      \<and> clientY exWheel - top exRect = 100
      \<and> transformRef exState = \<lparr> x = 0, y = 0, scale = 1 \<rparr>"
    by (simp add: exWheel_def exRect_def exState_def initialState_def)
  show ?thesis
    using h i handleWheel_zoom [OF h, of exWheel]
    by (auto simp only: Let_def)
qed

subsection \<open>C2: pinch scale and gesture baseline\<close>

text \<open>
  C2: with at least two active pointers and a positive baseline mean distance, the scale
  step of a pointer move gives the baseline scale times the quotient of the current mean
  distance by the baseline mean distance, clamped to \<open>[0.05, 20]\<close>; and a pointer move that
  is processed (the pointer is active and there is a baseline) with such pointers and
  baseline sets the camera scale to that value, for the current mean distance of the pointers
  from their centroid. (For the handler the baseline scale is not zero: the translation of
  the same move divides by it.) The handlers that change the set of active pointers,
  pointer-down and pointer-up (also bound to cancel and leave), recompute the baseline from
  the new set and the camera alone: it is the baseline of the specification for them,
  whatever the baseline was before. Pointer-down returns when the camera scale and the canvas
  size are not zero (its double-tap branch divides by them).
\<close>

theorem pinch_scale_and_gesture_baseline:
  "(2 \<le> n \<and> 0 < distance g
    \<longrightarrow> pinchScale n g cur
          = Some (min (max (scale (GestureStart.transform g) * (distance cur / distance g)) 0.05) 20))
   \<and> (pointerId e \<in> fst ` set (pointersRef s) \<and> gestureStartRef s = Some g
      \<and> 2 \<le> length (pointersRef s) \<and> 0 < distance g \<and> scale (GestureStart.transform g) \<noteq> 0
    \<longrightarrow> (\<exists>s'. handlePointerMove env e s = Some s'
          \<and> pointersRef s'
              = AList.update (pointerId e) \<lparr> x = clientX e, y = clientY e \<rparr> (pointersRef s)
          \<and> scale (AppState.transform s')
              = min (max (scale (GestureStart.transform g)
                          * (mean_distance_from (centroid_of (map snd (pointersRef s')))
                               (map snd (pointersRef s')) / distance g)) 0.05) 20))
   \<and> (\<forall>s'. handlePointerDown env e s = Some s'
          \<longrightarrow> pointersRef s'
                = AList.update (pointerId e) \<lparr> x = clientX e, y = clientY e \<rparr> (pointersRef s)
            \<and> gestureStartRef s' = baseline_of (transformRef s) (pointersRef s'))
   \<and> (scale (transformRef s) \<noteq> 0 \<and> width (canvasSize s) \<noteq> 0 \<and> height (canvasSize s) \<noteq> 0
        \<longrightarrow> (\<exists>s'. handlePointerDown env e s = Some s'))
   \<and> (\<exists>s'. handlePointerUp e s = Some s'
          \<and> pointersRef s' = AList.delete (pointerId e) (pointersRef s)
          \<and> gestureStartRef s' = baseline_of (transformRef s) (pointersRef s'))"
proof (intro conjI impI allI)
  assume "2 \<le> n \<and> 0 < distance g"
  then show "pinchScale n g cur
          = Some (min (max (scale (GestureStart.transform g) * (distance cur / distance g)) 0.05) 20)"
    by (simp add: pinchScale_value clampScale_def)
next
  assume a: "pointerId e \<in> fst ` set (pointersRef s) \<and> gestureStartRef s = Some g
      \<and> 2 \<le> length (pointersRef s) \<and> 0 < distance g \<and> scale (GestureStart.transform g) \<noteq> 0"
  then have "length (pointersRef s) \<noteq> 1 \<or> type (maskConfig s) = HAND" by simp
  with a obtain s' v where s': "handlePointerMove env e s = Some s'"
    and p: "pointersRef s' = AList.update (pointerId e) \<lparr> x = clientX e, y = clientY e \<rparr> (pointersRef s)"
    and v: "pinchScale (length (pointersRef s')) g
            \<lparr> center = centroid_of (map snd (pointersRef s')),
              distance = mean_distance_from (centroid_of (map snd (pointersRef s'))) (map snd (pointersRef s')) \<rparr>
          = Some v"
    and sv: "scale (AppState.transform s') = v"
    using handlePointerMove_processed [of e s g env] by blast
  have "length (pointersRef s') = length (pointersRef s)"
    using a p by (simp add: length_AList_update)
  with a have "length (pointersRef s') > 1" by simp
  with a v sv have "scale (AppState.transform s')
              = min (max (scale (GestureStart.transform g)
                          * (mean_distance_from (centroid_of (map snd (pointersRef s')))
                               (map snd (pointersRef s')) / distance g)) 0.05) 20"
    by (simp add: pinchScale_value clampScale_def)
  with s' p show "\<exists>s'. handlePointerMove env e s = Some s'
          \<and> pointersRef s'
              = AList.update (pointerId e) \<lparr> x = clientX e, y = clientY e \<rparr> (pointersRef s)
          \<and> scale (AppState.transform s')
              = min (max (scale (GestureStart.transform g)
                          * (mean_distance_from (centroid_of (map snd (pointersRef s')))
                               (map snd (pointersRef s')) / distance g)) 0.05) 20"
    by blast
next
  fix s' assume "handlePointerDown env e s = Some s'"
  then show "pointersRef s'
                = AList.update (pointerId e) \<lparr> x = clientX e, y = clientY e \<rparr> (pointersRef s)"
    and "gestureStartRef s' = baseline_of (transformRef s) (pointersRef s')"
    using handlePointerDown_baseline by blast+
next
  assume "scale (transformRef s) \<noteq> 0 \<and> width (canvasSize s) \<noteq> 0 \<and> height (canvasSize s) \<noteq> 0"
  then show "\<exists>s'. handlePointerDown env e s = Some s'"
    using handlePointerDown_total by blast
next
  show "\<exists>s'. handlePointerUp e s = Some s'
          \<and> pointersRef s' = AList.delete (pointerId e) (pointersRef s)
          \<and> gestureStartRef s' = baseline_of (transformRef s) (pointersRef s')"
    by (simp add: handlePointerUp_eq)
qed

text \<open>C2 at a state with two active pointers, one of which moves.\<close>

theorem pinch_scale_and_gesture_baseline_witness:
  "(pointerId exPointer \<in> fst ` set (pointersRef exPinch) \<and> gestureStartRef exPinch = Some exGesture
      \<and> 2 \<le> length (pointersRef exPinch) \<and> 0 < distance exGesture
      \<and> scale (GestureStart.transform exGesture) \<noteq> 0)
   \<and> (\<exists>s'. handlePointerMove exEnv exPointer exPinch = Some s'
          \<and> pointersRef s'
              = AList.update (pointerId exPointer) \<lparr> x = clientX exPointer, y = clientY exPointer \<rparr>
                  (pointersRef exPinch)
          \<and> scale (AppState.transform s')
              = min (max (scale (GestureStart.transform exGesture)
                          * (mean_distance_from (centroid_of (map snd (pointersRef s')))
                               (map snd (pointersRef s')) / distance exGesture)) 0.05) 20)
   \<and> (scale (transformRef exPinch) \<noteq> 0 \<and> width (canvasSize exPinch) \<noteq> 0
        \<and> height (canvasSize exPinch) \<noteq> 0)
   \<and> (\<exists>s'. handlePointerDown exEnv exPointer exPinch = Some s')"
proof -
  have h: "pointerId exPointer \<in> fst ` set (pointersRef exPinch) \<and> gestureStartRef exPinch = Some exGesture
      \<and> 2 \<le> length (pointersRef exPinch) \<and> 0 < distance exGesture
      \<and> scale (GestureStart.transform exGesture) \<noteq> 0"
    by (simp add: exPinch_def exPointer_def exGesture_def initialState_def)
  have k: "scale (transformRef exPinch) \<noteq> 0 \<and> width (canvasSize exPinch) \<noteq> 0
        \<and> height (canvasSize exPinch) \<noteq> 0"
    by (simp add: exPinch_def initialState_def exEnv_def)
  show ?thesis
    using h k pinch_scale_and_gesture_baseline
      [of 2 exGesture "\<lparr> center = \<lparr> x = 3, y = 4 \<rparr>, distance = 10 \<rparr>" exPointer exPinch exEnv]
    by blast
qed

subsection \<open>C3: range of the camera scale\<close>

text \<open>
  C3, as stated: after every operation that produces a camera, its scale is in
  \<open>[0.05, 20]\<close>. Fit-to-screen of a canvas of 100000 by 1000 pixels in a window of 1048 by
  1140 gives the scale 0.01, and the upscale path, from the scale 0.1 with an image four
  times as wide, gives 0.025: both below 0.05.
\<close>

theorem camera_scale_not_clamped_counterexample:
  "map_option cameraScale (handleFitToScreen exEnv exWide) = Some (1 / 100)
   \<and> map_option cameraScale (handleUpscaleLayer_onload 1 exSmallImage exLargeImage exZoomedOut)
       = Some (1 / 40)
   \<and> \<not> (0.05 \<le> (1 / 100 :: real)) \<and> \<not> (0.05 \<le> (1 / 40 :: real))"
  by (simp add: handleFitToScreen_def centerImage_def handleUpscaleLayer_onload_def jsdiv_def
      cameraScale_def exWide_def exZoomedOut_def exState_def initialState_def exEnv_def
      exSmallImage_def exLargeImage_def Let_def)

text \<open>
  C3, amended: wheel zoom and pinch give a camera scale in \<open>[0.05, 20]\<close>; double-tap on a
  camera of scale below 1 gives the scale 1, and on another camera the scale of
  fit-to-screen; zoom-in gives \<open>min (scale * 1.25) 20\<close>, at most 20, and zoom-out
  \<open>max (scale * 0.8) 0.05\<close>, at least 0.05, so that each keeps a scale of \<open>[0.05, 20]\<close> in
  that range; center-view leaves the scale as it is; fit-to-screen gives
  \<open>min (availableWidth / width, availableHeight / height, 1)\<close>, at most 1 and with no lower
  bound; the upscale path divides the scale by the size ratio and does not clamp it.
\<close>

theorem camera_scale_after_operations:
  "(\<not> isGenerating sw \<and> \<not> showGenModal sw \<and> viewportRect env = Some rect
      \<and> scale (transformRef sw) \<noteq> 0
     \<longrightarrow> (\<exists>s'. handleWheel env we sw = Some s'
            \<and> 0.05 \<le> cameraScale s' \<and> cameraScale s' \<le> 20))
   \<and> (pointerId e \<in> fst ` set (pointersRef sp) \<and> gestureStartRef sp = Some g
        \<and> (length (pointersRef sp) \<noteq> 1 \<or> type (maskConfig sp) = HAND)
        \<and> scale (GestureStart.transform g) \<noteq> 0
     \<longrightarrow> (\<exists>s'. handlePointerMove env e sp = Some s'
            \<and> 0.05 \<le> cameraScale s' \<and> cameraScale s' \<le> 20))
   \<and> (pointersRef sd = [] \<and> now env - lastTapRef sd < 300 \<and> scale (transformRef sd) < 1
        \<and> scale (transformRef sd) \<noteq> 0 \<and> viewportRect env = Some rect
     \<longrightarrow> (\<exists>s'. handlePointerDown env e sd = Some s' \<and> cameraScale s' = 1))
   \<and> (pointersRef sf = [] \<and> now env - lastTapRef sf < 300 \<and> 1 \<le> scale (transformRef sf)
        \<and> width (canvasSize sf) \<noteq> 0 \<and> height (canvasSize sf) \<noteq> 0
     \<longrightarrow> (\<exists>s'. handlePointerDown env e sf = Some s'
            \<and> cameraScale s'
                = min (min ((innerWidth env - 48) / width (canvasSize sf))
                           ((innerHeight env - 140) / height (canvasSize sf))) 1))
   \<and> cameraScale (handleZoomIn s) = min (cameraScale s * 1.25) 20
   \<and> cameraScale (handleZoomIn s) \<le> 20
   \<and> (0.05 \<le> cameraScale s \<longrightarrow> 0.05 \<le> cameraScale (handleZoomIn s))
   \<and> cameraScale (handleZoomOut s) = max (cameraScale s * 0.8) 0.05
   \<and> 0.05 \<le> cameraScale (handleZoomOut s)
   \<and> (cameraScale s \<le> 20 \<longrightarrow> cameraScale (handleZoomOut s) \<le> 20)
   \<and> cameraScale (handleCenterView env s) = cameraScale s
   \<and> (w \<noteq> 0 \<and> h \<noteq> 0
     \<longrightarrow> (\<exists>s'. centerImage env w h s = Some s'
            \<and> cameraScale s' = min (min ((innerWidth env - 48) / w) ((innerHeight env - 140) / h)) 1
            \<and> cameraScale s' \<le> 1))
   \<and> (width img \<noteq> 0 \<and> width newImg \<noteq> 0
     \<longrightarrow> (\<exists>s'. handleUpscaleLayer_onload 1 img newImg s = Some s'
            \<and> cameraScale s' = cameraScale s / (width newImg / width img)))"
proof (intro conjI impI)
  assume "\<not> isGenerating sw \<and> \<not> showGenModal sw \<and> viewportRect env = Some rect
      \<and> scale (transformRef sw) \<noteq> 0"
  then show "\<exists>s'. handleWheel env we sw = Some s' \<and> 0.05 \<le> cameraScale s' \<and> cameraScale s' \<le> 20"
    using handleWheel_open [of sw env rect we]
      clampScale_range [of "scale (transformRef sw) * exp (- sgn (deltaY we) * 0.15)"]
    by (simp add: cameraScale_def)
next
  assume a: "pointerId e \<in> fst ` set (pointersRef sp) \<and> gestureStartRef sp = Some g
        \<and> (length (pointersRef sp) \<noteq> 1 \<or> type (maskConfig sp) = HAND)
        \<and> scale (GestureStart.transform g) \<noteq> 0"
  then obtain s' v where s': "handlePointerMove env e sp = Some s'"
    and v: "pinchScale (length (pointersRef s')) g
            \<lparr> center = centroid_of (map snd (pointersRef s')),
              distance = mean_distance_from (centroid_of (map snd (pointersRef s'))) (map snd (pointersRef s')) \<rparr>
          = Some v"
    and sv: "scale (AppState.transform s') = v"
    using handlePointerMove_processed [of e sp g env] by blast
  from v have "0.05 \<le> v \<and> v \<le> 20"
    unfolding pinchScale_value using clampScale_range by (metis option.inject)
  with s' sv show "\<exists>s'. handlePointerMove env e sp = Some s'
            \<and> 0.05 \<le> cameraScale s' \<and> cameraScale s' \<le> 20"
    by (auto simp add: cameraScale_def)
next
  assume "pointersRef sd = [] \<and> now env - lastTapRef sd < 300 \<and> scale (transformRef sd) < 1
        \<and> scale (transformRef sd) \<noteq> 0 \<and> viewportRect env = Some rect"
  then show "\<exists>s'. handlePointerDown env e sd = Some s' \<and> cameraScale s' = 1"
    using handlePointerDown_doubleTap [of sd env rect e] by (simp add: cameraScale_def)
next
  assume "pointersRef sf = [] \<and> now env - lastTapRef sf < 300 \<and> 1 \<le> scale (transformRef sf)
        \<and> width (canvasSize sf) \<noteq> 0 \<and> height (canvasSize sf) \<noteq> 0"
  then show "\<exists>s'. handlePointerDown env e sf = Some s'
            \<and> cameraScale s'
                = min (min ((innerWidth env - 48) / width (canvasSize sf))
                           ((innerHeight env - 140) / height (canvasSize sf))) 1"
    using handlePointerDown_doubleTap_fit [of sf env e] by (simp add: cameraScale_def)
next
  show "cameraScale (handleZoomIn s) = min (cameraScale s * 1.25) 20"
    by (simp add: cameraScale_def handleZoomIn_def)
next
  show "cameraScale (handleZoomIn s) \<le> 20"
    by (simp add: cameraScale_def handleZoomIn_def)
next
  assume "0.05 \<le> cameraScale s"
  then show "0.05 \<le> cameraScale (handleZoomIn s)"
    by (simp add: cameraScale_def handleZoomIn_def min_def)
next
  show "cameraScale (handleZoomOut s) = max (cameraScale s * 0.8) 0.05"
    by (simp add: cameraScale_def handleZoomOut_def)
next
  show "0.05 \<le> cameraScale (handleZoomOut s)"
    by (simp add: cameraScale_def handleZoomOut_def)
next
  assume "cameraScale s \<le> 20"
  then show "cameraScale (handleZoomOut s) \<le> 20"
    by (simp add: cameraScale_def handleZoomOut_def max_def)
next
  show "cameraScale (handleCenterView env s) = cameraScale s"
    by (simp add: cameraScale_def handleCenterView_def Let_def)
next
  assume "w \<noteq> 0 \<and> h \<noteq> 0"
  then show "\<exists>s'. centerImage env w h s = Some s'
            \<and> cameraScale s' = min (min ((innerWidth env - 48) / w) ((innerHeight env - 140) / h)) 1
            \<and> cameraScale s' \<le> 1"
    by (simp add: centerImage_eq cameraScale_def)
next
  assume "width img \<noteq> 0 \<and> width newImg \<noteq> 0"
  then show "\<exists>s'. handleUpscaleLayer_onload 1 img newImg s = Some s'
            \<and> cameraScale s' = cameraScale s / (width newImg / width img)"
    using handleUpscaleLayer_onload_eq [of img newImg s] by (simp add: cameraScale_def)
qed

text \<open>
  C3, amended, at example inputs: a wheel event and a zoom button at the initial state, a
  pinch of two pointers, a double tap on a camera of scale 0.5 and on one of scale 1,
  fit-to-screen of a wide canvas and the upscale of an image of width 500 to width 2000.
\<close>

theorem camera_scale_after_operations_witness:
  "(\<not> isGenerating exState \<and> \<not> showGenModal exState \<and> viewportRect exEnv = Some exRect
      \<and> scale (transformRef exState) \<noteq> 0)
   \<and> (\<exists>s'. handleWheel exEnv exWheel exState = Some s'
            \<and> 0.05 \<le> cameraScale s' \<and> cameraScale s' \<le> 20)
   \<and> (pointerId exPointer \<in> fst ` set (pointersRef exPinch) \<and> gestureStartRef exPinch = Some exGesture
        \<and> length (pointersRef exPinch) = 2 \<and> scale (GestureStart.transform exGesture) \<noteq> 0)
   \<and> (\<exists>s'. handlePointerMove exEnv exPointer exPinch = Some s'
            \<and> 0.05 \<le> cameraScale s' \<and> cameraScale s' \<le> 20)
   \<and> (pointersRef exTap = [] \<and> now exEnv - lastTapRef exTap < 300 \<and> scale (transformRef exTap) < 1
        \<and> scale (transformRef exTap) \<noteq> 0)
   \<and> (\<exists>s'. handlePointerDown exEnv exPointer exTap = Some s' \<and> cameraScale s' = 1)
   \<and> (pointersRef exTapFit = [] \<and> now exEnv - lastTapRef exTapFit < 300
        \<and> 1 \<le> scale (transformRef exTapFit)
        \<and> width (canvasSize exTapFit) \<noteq> 0 \<and> height (canvasSize exTapFit) \<noteq> 0)
   \<and> (\<exists>s'. handlePointerDown exEnv exPointer exTapFit = Some s'
            \<and> cameraScale s'
                = min (min ((innerWidth exEnv - 48) / width (canvasSize exTapFit))
                           ((innerHeight exEnv - 140) / height (canvasSize exTapFit))) 1)
   \<and> (0.05 \<le> cameraScale exState \<and> 0.05 \<le> cameraScale (handleZoomIn exState))
   \<and> (cameraScale exState \<le> 20 \<and> cameraScale (handleZoomOut exState) \<le> 20)
   \<and> (\<exists>s'. centerImage exEnv 100000 1000 exState = Some s' \<and> cameraScale s' \<le> 1)
   \<and> (width exSmallImage \<noteq> 0 \<and> width exLargeImage \<noteq> 0)
   \<and> (\<exists>s'. handleUpscaleLayer_onload 1 exSmallImage exLargeImage exState = Some s'
            \<and> cameraScale s' = cameraScale exState / (width exLargeImage / width exSmallImage))"
proof -
  have h1: "\<not> isGenerating exState \<and> \<not> showGenModal exState \<and> viewportRect exEnv = Some exRect
      \<and> scale (transformRef exState) \<noteq> 0"
    by (simp add: exState_def initialState_def exEnv_def)
  have h2: "pointerId exPointer \<in> fst ` set (pointersRef exPinch) \<and> gestureStartRef exPinch = Some exGesture
        \<and> length (pointersRef exPinch) = 2 \<and> scale (GestureStart.transform exGesture) \<noteq> 0"
    by (simp add: exPinch_def exPointer_def exGesture_def initialState_def)
  have h3: "pointersRef exTap = [] \<and> now exEnv - lastTapRef exTap < 300 \<and> scale (transformRef exTap) < 1
        \<and> scale (transformRef exTap) \<noteq> 0"
    by (simp add: exTap_def exState_def initialState_def exEnv_def)
  have h3': "pointersRef exTapFit = [] \<and> now exEnv - lastTapRef exTapFit < 300
        \<and> 1 \<le> scale (transformRef exTapFit)
        \<and> width (canvasSize exTapFit) \<noteq> 0 \<and> height (canvasSize exTapFit) \<noteq> 0"
    by (simp add: exTapFit_def exState_def initialState_def exEnv_def)
  have h4: "0.05 \<le> cameraScale exState" "cameraScale exState \<le> 20"
    by (simp_all add: cameraScale_def exState_def initialState_def)
  have h5: "(100000::real) \<noteq> 0 \<and> (1000::real) \<noteq> 0"
    by simp
  have h6: "width exSmallImage \<noteq> 0 \<and> width exLargeImage \<noteq> 0"
    by (simp add: exSmallImage_def exLargeImage_def)
  note t = camera_scale_after_operations [where sw = exState and env = exEnv and rect = exRect
      and we = exWheel and e = exPointer and sp = exPinch and g = exGesture and sd = exTap
      and sf = exTapFit and s = exState and w = 100000 and h = 1000 and img = exSmallImage and newImg = exLargeImage]
  from h2 have h2': "length (pointersRef exPinch) \<noteq> 1 \<or> type (maskConfig exPinch) = HAND"
    by simp
  show ?thesis
    using t h1 h2 h2' h3 h3' h4 h5 h6 by blast
qed

subsection \<open>C4: history stack\<close>

text \<open>
  C4: \<open>saveHistory\<close> (the checkpoint) appends the current configuration to \<open>past\<close> and
  empties \<open>future\<close>; \<open>undo\<close> does nothing on an empty \<open>past\<close> and otherwise makes the last
  entry of \<open>past\<close> the configuration, removes it from \<open>past\<close> and puts the configuration it
  replaced at the front of \<open>future\<close>; \<open>redo\<close> does nothing on an empty \<open>future\<close> and
  otherwise makes the first entry of \<open>future\<close> the configuration, removes it from \<open>future\<close>
  and appends the configuration it replaced to \<open>past\<close>. After a checkpoint at a configuration
  and a change to \<open>B\<close>, \<open>undo\<close> gives back that configuration and \<open>redo\<close> after it gives \<open>B\<close>.
\<close>

theorem history_stack:
  "past (saveHistory s) = past s @ [maskConfig s] \<and> future (saveHistory s) = []
     \<and> maskConfig (saveHistory s) = maskConfig s
   \<and> (past s = [] \<longrightarrow> undo s = s)
   \<and> (past s \<noteq> [] \<longrightarrow>
        maskConfig (undo s) = last (past s) \<and> past (undo s) = butlast (past s)
        \<and> future (undo s) = maskConfig s # future s)
   \<and> (future s = [] \<longrightarrow> redo s = s)
   \<and> (future s \<noteq> [] \<longrightarrow>
        maskConfig (redo s) = hd (future s) \<and> future (redo s) = tl (future s)
        \<and> past (redo s) = past s @ [maskConfig s])
   \<and> maskConfig (undo (setMaskConfig B (saveHistory s))) = maskConfig s
   \<and> maskConfig (redo (undo (setMaskConfig B (saveHistory s)))) = B"
  by (simp add: saveHistory_def undo_def redo_def setMaskConfig_def Let_def butlast_conv_take drop_Suc)

text \<open>
  C4 at the initial state, where both lists are empty, at a state with one entry in each
  list, and around a change of a configuration with a stroke to the default one.
\<close>

theorem history_stack_witness:
  "past exState = [] \<and> undo exState = exState
   \<and> future exState = [] \<and> redo exState = exState
   \<and> past exHistory \<noteq> [] \<and> maskConfig (undo exHistory) = DEFAULT_MASK_CONFIG
   \<and> past (undo exHistory) = [] \<and> future (undo exHistory) = maskConfig exHistory # future exHistory
   \<and> future exHistory \<noteq> [] \<and> maskConfig (redo exHistory) = DEFAULT_MASK_CONFIG\<lparr> type := HAND \<rparr>
   \<and> future (redo exHistory) = []
   \<and> past (redo exHistory) = [DEFAULT_MASK_CONFIG, maskConfig exHistory]
   \<and> maskConfig (undo (setMaskConfig DEFAULT_MASK_CONFIG (saveHistory exDrawn))) = maskConfig exDrawn
   \<and> maskConfig (redo (undo (setMaskConfig DEFAULT_MASK_CONFIG (saveHistory exDrawn))))
       = DEFAULT_MASK_CONFIG"
proof -
  have e: "past exState = []" "future exState = []"
    by (simp_all add: exState_def initialState_def)
  have h: "past exHistory = [DEFAULT_MASK_CONFIG]"
    "future exHistory = [DEFAULT_MASK_CONFIG\<lparr> type := HAND \<rparr>]"
    by (simp_all add: exHistory_def)
  show ?thesis
    using history_stack [of exState DEFAULT_MASK_CONFIG] history_stack [of exHistory DEFAULT_MASK_CONFIG]
      history_stack [of exDrawn DEFAULT_MASK_CONFIG] e h
    by simp
qed

subsection \<open>C5: tool selection\<close>

text \<open>
  C5, as stated: the selection of Brush or Pen leaves the strokes and all fields other than
  \<open>shape\<close> as they are. With one stroke drawn and a rotation of 45 degrees, the selection of
  Pen leaves no stroke and a rotation of 0.
\<close>

theorem select_brush_clears_strokes_counterexample:
  "brushPoints (maskConfig exDrawn) = [exStroke]
   \<and> brushPoints (maskConfig (onSelectMask PEN exDrawn)) = []
   \<and> rotation (maskConfig exDrawn) = 45
   \<and> rotation (maskConfig (onSelectMask PEN exDrawn)) = 0"
  by (simp add: onSelectMask_def saveHistory_def exDrawn_def Let_def)

text \<open>
  C5, amended: the selection of Brush or Pen makes it the interaction mode, sets \<open>shape\<close> to
  \<open>NONE\<close>, empties the strokes and resets the position to \<open>(0.5, 0.5)\<close>, the scale to 0.4
  and the rotation to 0; it leaves \<open>text\<close>, \<open>fontSize\<close>, \<open>brushSize\<close> and \<open>opacity\<close> as they
  are. The selection of Pan changes the interaction mode alone: \<open>shape\<close>, position, scale,
  rotation and the strokes stay.
\<close>

theorem onSelectMask_effect:
  "(ty = BRUSH \<or> ty = PEN \<longrightarrow>
      type (maskConfig (onSelectMask ty s)) = ty
      \<and> shape (maskConfig (onSelectMask ty s)) = NONE
      \<and> brushPoints (maskConfig (onSelectMask ty s)) = []
      \<and> x (maskConfig (onSelectMask ty s)) = 0.5
      \<and> y (maskConfig (onSelectMask ty s)) = 0.5
      \<and> scale (maskConfig (onSelectMask ty s)) = 0.4
      \<and> rotation (maskConfig (onSelectMask ty s)) = 0
      \<and> text (maskConfig (onSelectMask ty s)) = text (maskConfig s)
      \<and> fontSize (maskConfig (onSelectMask ty s)) = fontSize (maskConfig s)
      \<and> brushSize (maskConfig (onSelectMask ty s)) = brushSize (maskConfig s)
      \<and> opacity (maskConfig (onSelectMask ty s)) = opacity (maskConfig s))
   \<and> maskConfig (onSelectMask HAND s) = (maskConfig s)\<lparr> type := HAND \<rparr>
   \<and> shape (maskConfig (onSelectMask HAND s)) = shape (maskConfig s)
   \<and> x (maskConfig (onSelectMask HAND s)) = x (maskConfig s)
   \<and> y (maskConfig (onSelectMask HAND s)) = y (maskConfig s)
   \<and> scale (maskConfig (onSelectMask HAND s)) = scale (maskConfig s)
   \<and> rotation (maskConfig (onSelectMask HAND s)) = rotation (maskConfig s)
   \<and> brushPoints (maskConfig (onSelectMask HAND s)) = brushPoints (maskConfig s)"
  by (auto simp add: onSelectMask_def saveHistory_def Let_def DEFAULT_MASK_CONFIG_def)

text \<open>C5, amended, for the selection of Pen and of Pan after a stroke was drawn.\<close>

theorem onSelectMask_effect_witness:
  "shape (maskConfig (onSelectMask PEN exDrawn)) = NONE
   \<and> brushPoints (maskConfig (onSelectMask PEN exDrawn)) = []
   \<and> x (maskConfig (onSelectMask PEN exDrawn)) = 0.5
   \<and> rotation (maskConfig (onSelectMask PEN exDrawn)) = 0
   \<and> brushSize (maskConfig (onSelectMask PEN exDrawn)) = 20
   \<and> brushPoints (maskConfig (onSelectMask HAND exDrawn)) = [exStroke]
   \<and> rotation (maskConfig (onSelectMask HAND exDrawn)) = 45"
  using onSelectMask_effect [of PEN exDrawn]
  by (simp add: exDrawn_def DEFAULT_MASK_CONFIG_def)

subsection \<open>C6: upscaling the foreground\<close>

text \<open>
  C6: when the upscaled foreground image has loaded, with the ratio \<open>r\<close> of the width of
  the new image to the width of the one that was sent (neither is 0), the configuration has
  its \<open>fontSize\<close> and \<open>brushSize\<close> multiplied by \<open>r\<close> and both coordinates of every point of
  every stroke multiplied by \<open>r\<close>, the camera scale is divided by \<open>r\<close>, and the other fields
  of the configuration, as the translation of the camera, are as before.
\<close>

theorem upscale_rescales_mask:
  assumes "width img \<noteq> 0" "width newImg \<noteq> 0"
  shows "\<exists>s'. handleUpscaleLayer_onload 1 img newImg s = Some s'
     \<and> fontSize (maskConfig s') = fontSize (maskConfig s) * (width newImg / width img)
     \<and> brushSize (maskConfig s') = brushSize (maskConfig s) * (width newImg / width img)
     \<and> brushPoints (maskConfig s')
          = map (map (\<lambda>p. \<lparr> x = x p * (width newImg / width img),
                             y = y p * (width newImg / width img) \<rparr>))
                (brushPoints (maskConfig s))
     \<and> cameraScale s' = cameraScale s / (width newImg / width img)
     \<and> x (AppState.transform s') = x (AppState.transform s)
     \<and> y (AppState.transform s') = y (AppState.transform s)
     \<and> type (maskConfig s') = type (maskConfig s)
     \<and> shape (maskConfig s') = shape (maskConfig s)
     \<and> x (maskConfig s') = x (maskConfig s)
     \<and> y (maskConfig s') = y (maskConfig s)
     \<and> scale (maskConfig s') = scale (maskConfig s)
     \<and> rotation (maskConfig s') = rotation (maskConfig s)
     \<and> text (maskConfig s') = text (maskConfig s)
     \<and> opacity (maskConfig s') = opacity (maskConfig s)"
  using handleUpscaleLayer_onload_eq [OF assms, of s] by (simp add: cameraScale_def)

text \<open>C6 for an image of width 500 upscaled to width 2000, with one stroke drawn.\<close>

theorem upscale_rescales_mask_witness:
  "width exSmallImage \<noteq> 0 \<and> width exLargeImage \<noteq> 0
   \<and> (\<exists>s'. handleUpscaleLayer_onload 1 exSmallImage exLargeImage exDrawn = Some s'
          \<and> fontSize (maskConfig s') = 400 \<and> brushSize (maskConfig s') = 80
          \<and> brushPoints (maskConfig s') = [[\<lparr> x = 4, y = 8 \<rparr>, \<lparr> x = 12, y = 16 \<rparr>]]
          \<and> cameraScale s' = 1 / 4
          \<and> rotation (maskConfig s') = 45)"
proof -
  have h: "width exSmallImage \<noteq> 0" "width exLargeImage \<noteq> 0"
    by (simp_all add: exSmallImage_def exLargeImage_def)
  have v: "width exLargeImage / width exSmallImage = 4"
    "fontSize (maskConfig exDrawn) = 100" "brushSize (maskConfig exDrawn) = 20"
    "brushPoints (maskConfig exDrawn) = [[\<lparr> x = 1, y = 2 \<rparr>, \<lparr> x = 3, y = 4 \<rparr>]]"
    "cameraScale exDrawn = 1" "rotation (maskConfig exDrawn) = 45"
    by (simp_all add: exSmallImage_def exLargeImage_def exDrawn_def exStroke_def exState_def
        initialState_def DEFAULT_MASK_CONFIG_def cameraScale_def)
  show ?thesis
    using upscale_rescales_mask [OF h, of exDrawn] h v by auto
qed

subsection \<open>C7: pointer-down on the drawing path\<close>

text \<open>
  C7, as stated: in Brush or Pen mode the pointer-down appends a stroke with no point. With
  the brush selected and no stroke yet, a primary pointer-down at \<open>(6, 8)\<close> of a canvas shown
  at half its pixel size leaves one stroke, which holds the point \<open>(12, 16)\<close>.
\<close>

theorem pointer_down_stroke_counterexample:
  "type (maskConfig exBrush) = BRUSH \<and> isPrimary exDown
   \<and> map_option (brushPoints \<circ> maskConfig \<circ> fst)
        (CanvasLayer_handlePointerDown (Some exCanvas) exDown (exBrush, exLayer))
       = Some (brushPoints (maskConfig exBrush) @ [[\<lparr> x = 12, y = 16 \<rparr>]])
   \<and> map_option (brushPoints \<circ> maskConfig \<circ> fst)
        (CanvasLayer_handlePointerDown (Some exCanvas) exDown (exBrush, exLayer))
       \<noteq> Some (brushPoints (maskConfig exBrush) @ [[]])"
  by (simp add: CanvasLayer_handlePointerDown_def getPos_def jsdiv_def saveHistory_def
      setMaskConfig_def exBrush_def exDown_def exCanvas_def exLayer_def Let_def)

text \<open>
  C7, amended: a primary pointer-down on the canvas while the interaction mode is not Pan
  records a checkpoint of the configuration as it was (it is appended to \<open>past\<close>, and
  \<open>future\<close> is emptied), starts the drag at the position of the pointer in canvas pixels
  (the client position relative to the canvas, times the quotient of the pixel size of the
  canvas by its size on screen, which is not 0) and, in Brush or Pen mode, appends to the
  strokes one new stroke that holds that position as its only point, changing nothing else in
  the configuration; in the other modes the configuration stays as it was.
\<close>

theorem pointer_down_checkpoint_and_stroke:
  assumes "type (maskConfig app) \<noteq> HAND" "isPrimary e" "canvasRef = Some canvas"
    and "width (boundingClientRect canvas) \<noteq> 0" "height (boundingClientRect canvas) \<noteq> 0"
  shows "\<exists>app' l' pos. CanvasLayer_handlePointerDown canvasRef e (app, l) = Some (app', l')
     \<and> pos = \<lparr> x = (clientX e - left (boundingClientRect canvas))
                      * (width canvas / width (boundingClientRect canvas)),
                y = (clientY e - top (boundingClientRect canvas))
                      * (height canvas / height (boundingClientRect canvas)) \<rparr>
     \<and> past app' = past app @ [maskConfig app] \<and> future app' = []
     \<and> isDragging l' \<and> lastPos l' = pos
     \<and> (if type (maskConfig app) = BRUSH \<or> type (maskConfig app) = PEN
         then maskConfig app'
                = (maskConfig app)\<lparr> brushPoints := brushPoints (maskConfig app) @ [[pos]] \<rparr>
         else maskConfig app' = maskConfig app)"
  using assms
  by (simp add: CanvasLayer_handlePointerDown_def getPos_def jsdiv_def saveHistory_def
      setMaskConfig_def Let_def)

text \<open>C7, amended, for the first pointer-down with the brush.\<close>

theorem pointer_down_checkpoint_and_stroke_witness:
  "type (maskConfig exBrush) \<noteq> HAND \<and> isPrimary exDown
   \<and> width (boundingClientRect exCanvas) \<noteq> 0 \<and> height (boundingClientRect exCanvas) \<noteq> 0
   \<and> (\<exists>app' l'. CanvasLayer_handlePointerDown (Some exCanvas) exDown (exBrush, exLayer) = Some (app', l')
         \<and> past app' = [maskConfig exBrush] \<and> future app' = []
         \<and> isDragging l' \<and> lastPos l' = \<lparr> x = 12, y = 16 \<rparr>
         \<and> brushPoints (maskConfig app') = [[\<lparr> x = 12, y = 16 \<rparr>]])"
proof -
  have h: "type (maskConfig exBrush) \<noteq> HAND" "isPrimary exDown" "Some exCanvas = Some exCanvas"
    "width (boundingClientRect exCanvas) \<noteq> 0" "height (boundingClientRect exCanvas) \<noteq> 0"
    by (simp_all add: exBrush_def exDown_def exCanvas_def)
  have v: "type (maskConfig exBrush) = BRUSH" "past exBrush = []"
    "brushPoints (maskConfig exBrush) = []"
    "(clientX exDown - left (boundingClientRect exCanvas))
        * (width exCanvas / width (boundingClientRect exCanvas)) = 12"
    "(clientY exDown - top (boundingClientRect exCanvas))
        * (height exCanvas / height (boundingClientRect exCanvas)) = 16"
    by (simp_all add: exBrush_def exDown_def exCanvas_def exState_def initialState_def
        DEFAULT_MASK_CONFIG_def)
  show ?thesis
    using pointer_down_checkpoint_and_stroke [OF h, of exLayer] h v by auto
qed

subsection \<open>C8: width of the strokes\<close>

text \<open>
  C8: the stroke rasterizer (\<open>drawMaskShape\<close> with the tool Pen or Brush) paints one stroke
  operation for each stroke that has a point, in order, and none for a stroke without points,
  which is skipped (\<open>drawStroke\<close> leaves the context as it is). With Pen every operation has
  the line width 4, whatever the brush size; with Brush it has the brush size as its line
  width. The brush size is positive, as the data model has it: the canvas ignores another
  line width.
\<close>

theorem stroke_rasterizer_width:
  "drawn (drawMaskShape ctx PEN w h txt fontSz strokes brushSz)
     = drawn ctx @ map (strokePaint ctx 4) (filter (\<lambda>s. s \<noteq> []) strokes)
   \<and> lineWidth (drawMaskShape ctx PEN w h txt fontSz strokes brushSz) = 4
   \<and> (0 < brushSz \<longrightarrow>
        drawn (drawMaskShape ctx BRUSH w h txt fontSz strokes brushSz)
          = drawn ctx @ map (strokePaint ctx brushSz) (filter (\<lambda>s. s \<noteq> []) strokes)
        \<and> lineWidth (drawMaskShape ctx BRUSH w h txt fontSz strokes brushSz) = brushSz)
   \<and> drawStroke [] ctx = ctx"
proof -
  have "(0::real) < 4" by simp
  from drawStrokes_with_width [OF this] drawStrokes_with_width [of brushSz]
  show ?thesis
    by (simp add: drawMaskShape_def Let_def drawStroke_empty)
qed

text \<open>
  C8 on a new canvas for a brush size of 20 and three strokes, two of them without points.
\<close>

theorem stroke_rasterizer_width_witness:
  "(0::real) < 20
   \<and> drawn (drawMaskShape (createCanvas 800 600) BRUSH 800 600 [] 0 [[], exStroke, []] 20)
       = [Stroke \<lparr> ctm = [], globalAlpha = 1, globalCompositeOperation = ''source-over'' \<rparr>
            ''#FFFFFF'' 20 ''round'' ''round''
            [([], MoveTo 1 2), ([], LineTo 3 4)]]
   \<and> drawn (drawMaskShape (createCanvas 800 600) PEN 800 600 [] 0 [[], exStroke, []] 20)
       = [Stroke \<lparr> ctm = [], globalAlpha = 1, globalCompositeOperation = ''source-over'' \<rparr>
            ''#FFFFFF'' 4 ''round'' ''round''
            [([], MoveTo 1 2), ([], LineTo 3 4)]]"
  using stroke_rasterizer_width [of "createCanvas 800 600" 800 600 "[]" 0 "[[], exStroke, []]" 20]
  by (simp add: strokePaint_def polyline_def createCanvas_def exStroke_def Compositing.truncate_def)

subsection \<open>C9: the compositor depends on its inputs alone\<close>

text \<open>
  C9: the effect first clears the whole canvas and then paints from its inputs, so that what
  is on the canvas after it is the same for the same \<open>(width, height, foreground,
  background, maskConfig)\<close>, whatever was on the canvas before and whatever fill style,
  path or saved states an earlier frame left in the context. The two contexts are those of
  the canvas element of the component: of the size of the inputs, never transformed, with the
  same alpha and compositing operation. The effect keeps these so, which makes them hold
  again for the next frame; and it returns a canvas when no image has a zero width or height.
\<close>

theorem compositor_deterministic:
  assumes "0 \<le> w" "0 \<le> h" "mounted w h c1" "mounted w h c2"
    and "globalAlpha c1 = globalAlpha c2"
    and "globalCompositeOperation c1 = globalCompositeOperation c2"
  shows "map_option drawn (render doc w h fg bg mc c1) = map_option drawn (render doc w h fg bg mc c2)
     \<and> (\<forall>c'. render doc w h fg bg mc c1 = Some c'
           \<longrightarrow> mounted w h c' \<and> globalAlpha c' = globalAlpha c1
               \<and> globalCompositeOperation c' = globalCompositeOperation c1)
     \<and> ((\<forall>img. fg = Some img \<or> bg = Some img \<longrightarrow> width img \<noteq> 0 \<and> height img \<noteq> 0)
           \<longrightarrow> (\<exists>c'. render doc w h fg bg mc c1 = Some c'))"
proof (intro conjI allI impI)
  show "map_option drawn (render doc w h fg bg mc c1) = map_option drawn (render doc w h fg bg mc c2)"
    using assms by (rule render_drawn_eq)
next
  fix c' assume r: "render doc w h fg bg mc c1 = Some c'"
  have u: "unchanged_settings c1 c'"
    using assms(1,2,3) r by (rule render_unchanged)
  then show "mounted w h c'" "globalAlpha c' = globalAlpha c1"
    "globalCompositeOperation c' = globalCompositeOperation c1"
    using assms(3)
    by (simp_all add: unchanged_settings_def mounted_def Compositing.truncate_def)
next
  assume "\<forall>img. fg = Some img \<or> bg = Some img \<longrightarrow> width img \<noteq> 0 \<and> height img \<noteq> 0"
  then show "\<exists>c'. render doc w h fg bg mc c1 = Some c'"
    by (rule render_total)
qed

text \<open>
  C9 for a canvas that shows the checkerboard base of an earlier frame and a blank one, with
  a foreground image, no background and one stroke.
\<close>

theorem compositor_deterministic_witness:
  "((0::real) \<le> 800 \<and> (0::real) \<le> 600 \<and> mounted 800 600 exDirty \<and> mounted 800 600 (createCanvas 800 600)
     \<and> globalAlpha exDirty = globalAlpha (createCanvas 800 600)
     \<and> globalCompositeOperation exDirty = globalCompositeOperation (createCanvas 800 600))
   \<and> drawn exDirty \<noteq> drawn (createCanvas 800 600)
   \<and> map_option drawn (render exDocument 800 600 (Some exLargeImage) None (maskConfig exDrawn) exDirty)
       = map_option drawn
           (render exDocument 800 600 (Some exLargeImage) None (maskConfig exDrawn) (createCanvas 800 600))
   \<and> (\<exists>c'. render exDocument 800 600 (Some exLargeImage) None (maskConfig exDrawn) exDirty = Some c')"
proof -
  have h: "(0::real) \<le> 800" "(0::real) \<le> 600" "mounted 800 600 exDirty"
    "mounted 800 600 (createCanvas 800 600)"
    "globalAlpha exDirty = globalAlpha (createCanvas 800 600)"
    "globalCompositeOperation exDirty = globalCompositeOperation (createCanvas 800 600)"
    by (simp_all add: mounted_def exDirty_def createCanvas_def canvasDim_def)
  have n: "drawn exDirty \<noteq> drawn (createCanvas 800 600)"
    by (simp add: exDirty_def createCanvas_def)
  have i: "\<forall>img. Some exLargeImage = Some img \<or> None = Some img \<longrightarrow> width img \<noteq> 0 \<and> height img \<noteq> 0"
    by (simp add: exLargeImage_def)
  show ?thesis
    using compositor_deterministic [OF h, of exDocument "Some exLargeImage" None "maskConfig exDrawn"]
      h n i
    by blast
qed

subsection \<open>C10: a baseline of mean distance 0\<close>

text \<open>
  C10: the scale step of a pointer move never divides by zero: it gives a scale for every
  baseline, and for a baseline of mean distance 0 that scale is the baseline scale clamped
  to \<open>[0.05, 20]\<close>, not derived from a quotient of distances; so is the camera scale after
  a processed pointer move with such a baseline (whose scale is not zero, for the translation
  of the move). A baseline of mean distance 0 is what \<open>getCentroid\<close> gives for a single
  pointer and for pointers that coincide.
\<close>

theorem pinch_zero_baseline_distance:
  "(\<exists>v. pinchScale n g cur = Some v)
   \<and> (distance g = 0
        \<longrightarrow> pinchScale n g cur = Some (min (max (scale (GestureStart.transform g)) 0.05) 20))
   \<and> (pointerId e \<in> fst ` set (pointersRef s) \<and> gestureStartRef s = Some g \<and> distance g = 0
        \<and> (length (pointersRef s) \<noteq> 1 \<or> type (maskConfig s) = HAND)
        \<and> scale (GestureStart.transform g) \<noteq> 0
        \<longrightarrow> (\<exists>s'. handlePointerMove env e s = Some s'
               \<and> cameraScale s' = min (max (scale (GestureStart.transform g)) 0.05) 20))
   \<and> getCentroid [p] = Some \<lparr> center = p, distance = 0 \<rparr>
   \<and> getCentroid (replicate (Suc k) p) = Some \<lparr> center = p, distance = 0 \<rparr>"
proof (intro conjI impI)
  show "\<exists>v. pinchScale n g cur = Some v"
    by (rule pinchScale_total)
next
  assume "distance g = 0"
  then show "pinchScale n g cur = Some (min (max (scale (GestureStart.transform g)) 0.05) 20)"
    by (simp add: pinchScale_value clampScale_def)
next
  assume a: "pointerId e \<in> fst ` set (pointersRef s) \<and> gestureStartRef s = Some g \<and> distance g = 0
        \<and> (length (pointersRef s) \<noteq> 1 \<or> type (maskConfig s) = HAND)
        \<and> scale (GestureStart.transform g) \<noteq> 0"
  then obtain s' v where s': "handlePointerMove env e s = Some s'"
    and v: "pinchScale (length (pointersRef s')) g
            \<lparr> center = centroid_of (map snd (pointersRef s')),
              distance = mean_distance_from (centroid_of (map snd (pointersRef s'))) (map snd (pointersRef s')) \<rparr>
          = Some v"
    and sv: "scale (AppState.transform s') = v"
    using handlePointerMove_processed [of e s g env] by blast
  from a v have "v = min (max (scale (GestureStart.transform g)) 0.05) 20"
    by (simp add: pinchScale_value clampScale_def)
  with s' sv show "\<exists>s'. handlePointerMove env e s = Some s'
               \<and> cameraScale s' = min (max (scale (GestureStart.transform g)) 0.05) 20"
    by (simp add: cameraScale_def)
next
  show "getCentroid [p] = Some \<lparr> center = p, distance = 0 \<rparr>"
    using getCentroid_coincide [of 0 p] by simp
next
  show "getCentroid (replicate (Suc k) p) = Some \<lparr> center = p, distance = 0 \<rparr>"
    by (rule getCentroid_coincide)
qed

text \<open>C10 for two pointers that coincided at the baseline, one of which moves.\<close>

theorem pinch_zero_baseline_distance_witness:
  "(pointerId exPointer \<in> fst ` set (pointersRef exCoincide)
      \<and> gestureStartRef exCoincide = Some exZeroGesture \<and> distance exZeroGesture = 0
      \<and> 2 \<le> length (pointersRef exCoincide) \<and> scale (GestureStart.transform exZeroGesture) \<noteq> 0)
   \<and> (\<exists>s'. handlePointerMove exEnv exPointer exCoincide = Some s' \<and> cameraScale s' = 1)"
proof -
  have h: "pointerId exPointer \<in> fst ` set (pointersRef exCoincide)
      \<and> gestureStartRef exCoincide = Some exZeroGesture \<and> distance exZeroGesture = 0
      \<and> 2 \<le> length (pointersRef exCoincide) \<and> scale (GestureStart.transform exZeroGesture) \<noteq> 0"
    by (simp add: exCoincide_def exPointer_def exZeroGesture_def exState_def initialState_def)
  have v: "min (max (scale (GestureStart.transform exZeroGesture)) 0.05) 20 = (1::real)"
    by (simp add: exZeroGesture_def)
  show ?thesis
    using pinch_zero_baseline_distance [of 2 exZeroGesture "\<lparr> center = \<lparr> x = 0, y = 0 \<rparr>, distance = 0 \<rparr>"
        exPointer exCoincide exEnv "\<lparr> x = 0, y = 0 \<rparr>" 0] h v
    by force
qed

end
